theory Spec2Isabelle
  imports Complex_Main "HOL-Library.Multiset"
begin

section \<open>Glypto: the provider resolution engine\<close>

text \<open>
  A shallow embedding of the TypeScript sources of glypto: the provider strategies
  (\<^verbatim>\<open>providers/*.ts\<close>), the registry (\<^verbatim>\<open>provider-registry.ts\<close>), the accumulator
  (\<^verbatim>\<open>metadata.ts\<close>) and the traversal driver (\<^verbatim>\<open>scraper.ts\<close>).

  Conventions of the embedding:
  \<^item> a JavaScript string is a \<^typ>\<open>string\<close>; one \<^typ>\<open>char\<close> stands for one code unit, so the model
    covers strings whose code units are below 256;
  \<^item> \<^verbatim>\<open>null\<close> and \<^verbatim>\<open>undefined\<close> are \<^term>\<open>None\<close>;
  \<^item> a \<^verbatim>\<open>number\<close> used as a priority is a \<^typ>\<open>rat\<close>: finite, never NaN (the comparator
    \<^verbatim>\<open>a.priority - b.priority\<close> has the sign of the exact difference on finite numbers);
  \<^item> a \<^verbatim>\<open>Map<string, string[]>\<close> and the object \<^verbatim>\<open>ProviderData\<close> are partial maps; provider
    names are taken not to collide with the members of \<^verbatim>\<open>Object.prototype\<close>;
  \<^item> a provider is a record of its two fields and three methods; the methods are total
    functions, as the interface \<^verbatim>\<open>MetadataProvider\<close> types them.
\<close>

subsection \<open>JavaScript values and operators\<close>

text \<open>Truthiness of a \<^verbatim>\<open>string | null | undefined\<close>: neither absent nor the empty string.\<close>

definition truthy :: "string option \<Rightarrow> bool" where
  "truthy v = (case v of None \<Rightarrow> False | Some s \<Rightarrow> s \<noteq> [])"

text \<open>\<^verbatim>\<open>a || b\<close> on such values.\<close>

definition js_or :: "string option \<Rightarrow> string option \<Rightarrow> string option" where
  "js_or a b = (if truthy a then a else b)"

text \<open>\<^verbatim>\<open>a || d\<close> where \<^verbatim>\<open>d\<close> is a string literal: the result is a string.\<close>

definition js_or_default :: "string option \<Rightarrow> string \<Rightarrow> string" where
  "js_or_default a d = (case a of None \<Rightarrow> d | Some s \<Rightarrow> if s \<noteq> [] then s else d)"

text \<open>\<^verbatim>\<open>s.startsWith(p)\<close> and \<^verbatim>\<open>x?.startsWith(p)\<close>; the latter is \<^verbatim>\<open>undefined\<close> on an absent \<^verbatim>\<open>x\<close>.\<close>

definition startsWith :: "string \<Rightarrow> string \<Rightarrow> bool" where
  "startsWith s p = (take (length p) s = p)"

definition opt_startsWith :: "string option \<Rightarrow> string \<Rightarrow> bool option" where
  "opt_startsWith x p = map_option (\<lambda>s. startsWith s p) x"

text \<open>Truthiness, \<^verbatim>\<open>||\<close> and \<^verbatim>\<open>??\<close> on a \<^verbatim>\<open>boolean | undefined\<close>.\<close>

definition truthy_b :: "bool option \<Rightarrow> bool" where
  "truthy_b v = (case v of None \<Rightarrow> False | Some b \<Rightarrow> b)"

definition js_or_b :: "bool option \<Rightarrow> bool option \<Rightarrow> bool option" where
  "js_or_b a b = (if truthy_b a then a else b)"

definition nullish :: "bool option \<Rightarrow> bool \<Rightarrow> bool" where
  "nullish a d = (case a of None \<Rightarrow> d | Some b \<Rightarrow> b)"

text \<open>\<^verbatim>\<open>s.slice(n)\<close> for a start index \<open>n \<ge> 0\<close>.\<close>

definition slice :: "string \<Rightarrow> nat \<Rightarrow> string" where
  "slice s n = drop n s"

text \<open>
  \<^verbatim>\<open>s.toLowerCase()\<close>, on the letters A to Z. The code only compares the result with tag
  names written in lower-case ASCII letters and digits, and among the code units below 256
  no other one is mapped to such a letter, so these comparisons come out as in JavaScript.
\<close>

definition lower_char :: "char \<Rightarrow> char" where
  "lower_char c =
     (case map_of (zip ''ABCDEFGHIJKLMNOPQRSTUVWXYZ'' ''abcdefghijklmnopqrstuvwxyz'') c of
        None \<Rightarrow> c | Some d \<Rightarrow> d)"

definition toLowerCase :: "string \<Rightarrow> string" where
  "toLowerCase s = map lower_char s"

text \<open>
  \<^verbatim>\<open>s.trim()\<close>: the white space and line terminators among the code units below 256 are
  tab, line feed, vertical tab, form feed, carriage return, space and no-break space.
\<close>

definition isWhiteSpace :: "char \<Rightarrow> bool" where
  "isWhiteSpace c = (c \<in> set [CHR 0x09, CHR 0x0A, CHR 0x0B, CHR 0x0C, CHR 0x0D, CHR 0x20, CHR 0xA0])"

definition trim :: "string \<Rightarrow> string" where
  "trim s = rev (dropWhile isWhiteSpace (rev (dropWhile isWhiteSpace s)))"

text \<open>
  \<^verbatim>\<open>xs.sort(cmp)\<close>: ECMAScript (since 2019) requires the sort to be stable, and with a
  consistent comparator the result is ordered by it. Insertion from the right, placing an
  element before the first one it does not exceed, is such a sort.
\<close>

fun insert_by :: "('a \<Rightarrow> 'a \<Rightarrow> rat) \<Rightarrow> 'a \<Rightarrow> 'a list \<Rightarrow> 'a list" where
  "insert_by cmp x [] = [x]"
| "insert_by cmp x (y # ys) = (if cmp x y \<le> 0 then x # y # ys else y # insert_by cmp x ys)"

definition Array_sort :: "('a \<Rightarrow> 'a \<Rightarrow> rat) \<Rightarrow> 'a list \<Rightarrow> 'a list" where
  "Array_sort cmp xs = foldr (insert_by cmp) xs []"

subsection \<open>Markup nodes (the DOM, as far as the code reads it)\<close>

text \<open>
  The DOM is not part of the repository. An element is what the code reads of it: its tag
  name (every element has one, so the \<^verbatim>\<open>?.\<close> after \<^verbatim>\<open>tagName\<close> never short-circuits), its
  attributes (\<^verbatim>\<open>getAttribute\<close> gives \<^verbatim>\<open>null\<close> for an absent one, and the string, possibly empty,
  for a present one) and its text content, which the type allows to be \<^verbatim>\<open>null\<close>.
\<close>

record Element =
  tagName :: string
  attributes :: "string \<rightharpoonup> string"
  textContent :: "string option"

definition getAttribute :: "Element \<Rightarrow> string \<Rightarrow> string option" where
  "getAttribute e n = attributes e n"

subsection \<open>types.ts\<close>

type_synonym FieldData = "string \<rightharpoonup> string list"

record MetadataProvider =
  name :: string
  priority :: rat
  canHandle :: "Element \<Rightarrow> bool"
  scrape :: "Element \<Rightarrow> (string \<times> string) option"
  getValue :: "string \<Rightarrow> FieldData \<Rightarrow> string option"

type_synonym ProviderData = "string \<rightharpoonup> FieldData"

record Feed =
  title :: "string option"
  type :: string
  href :: string

subsection \<open>provider-registry.ts\<close>

record ProviderRegistry =
  providers :: "MetadataProvider list"

definition registerProvider :: "ProviderRegistry \<Rightarrow> MetadataProvider \<Rightarrow> ProviderRegistry" where
  "registerProvider reg provider =
     reg\<lparr>providers := Array_sort (\<lambda>a b. priority a - priority b) (providers reg @ [provider])\<rparr>"

text \<open>The constructor registers the given providers one by one, from the empty registry.\<close>

definition new_ProviderRegistry :: "MetadataProvider list \<Rightarrow> ProviderRegistry" where
  "new_ProviderRegistry ps = foldl registerProvider \<lparr>providers = []\<rparr> ps"

definition getProviders :: "ProviderRegistry \<Rightarrow> MetadataProvider list" where
  "getProviders reg = providers reg"

definition getProvider :: "ProviderRegistry \<Rightarrow> string \<Rightarrow> MetadataProvider option" where
  "getProvider reg n = find (\<lambda>p. name p = n) (providers reg)"

fun scrapeFromElement_loop ::
  "MetadataProvider list \<Rightarrow> Element \<Rightarrow> (MetadataProvider \<times> string \<times> string) option" where
  "scrapeFromElement_loop [] element = None"
| "scrapeFromElement_loop (provider # rest) element =
     (if canHandle provider element
      then (case scrape provider element of
              Some data \<Rightarrow> Some (provider, data)
            | None \<Rightarrow> scrapeFromElement_loop rest element)
      else scrapeFromElement_loop rest element)"

definition Registry_scrapeFromElement ::
  "ProviderRegistry \<Rightarrow> Element \<Rightarrow> (MetadataProvider \<times> string \<times> string) option" where
  "Registry_scrapeFromElement reg element = scrapeFromElement_loop (providers reg) element"

fun resolveValue_loop :: "MetadataProvider list \<Rightarrow> string \<Rightarrow> ProviderData \<Rightarrow> string option" where
  "resolveValue_loop [] key providerData = None"
| "resolveValue_loop (provider # rest) key providerData =
     (case providerData (name provider) of
        Some data \<Rightarrow>
          (let v = getValue provider key data
           in if truthy v then v else resolveValue_loop rest key providerData)
      | None \<Rightarrow> resolveValue_loop rest key providerData)"

definition Registry_resolveValue :: "ProviderRegistry \<Rightarrow> string \<Rightarrow> ProviderData \<Rightarrow> string option" where
  "Registry_resolveValue reg key providerData = resolveValue_loop (providers reg) key providerData"

subsection \<open>The provider strategies\<close>

text \<open>
  The method \<^verbatim>\<open>getValue\<close> has the same body in each of the provider classes: the first
  element of the list stored under the key, if there is one.
\<close>

definition Provider_getValue :: "string \<Rightarrow> FieldData \<Rightarrow> string option" where
  "Provider_getValue key data =
     (case data key of
        None \<Rightarrow> None
      | Some values \<Rightarrow> (case values of [] \<Rightarrow> None | v # _ \<Rightarrow> Some v))"

paragraph \<open>providers/open-graph-provider.ts\<close>

definition OpenGraph_canHandle :: "Element \<Rightarrow> bool" where
  "OpenGraph_canHandle element =
     (let property = getAttribute element ''property'';
          nm = getAttribute element ''name''
      in nullish (js_or_b (opt_startsWith property ''og:'') (opt_startsWith nm ''og:'')) False)"

definition OpenGraph_scrape :: "Element \<Rightarrow> (string \<times> string) option" where
  "OpenGraph_scrape element =
     (let property = js_or (getAttribute element ''property'') (getAttribute element ''name'');
          content = getAttribute element ''content''
      in if \<not> truthy property \<or> \<not> truthy content \<or> \<not> OpenGraph_canHandle element then None
         else (case (property, content) of
                 (Some p, Some c) \<Rightarrow> Some (slice p 3, c)
               | _ \<Rightarrow> None))"

definition OpenGraphProvider :: MetadataProvider where
  "OpenGraphProvider =
     \<lparr>name = ''openGraph'', priority = 1, canHandle = OpenGraph_canHandle,
      scrape = OpenGraph_scrape, getValue = Provider_getValue\<rparr>"

paragraph \<open>providers/twitter-provider.ts\<close>

definition Twitter_canHandle :: "Element \<Rightarrow> bool" where
  "Twitter_canHandle element =
     (let property = getAttribute element ''property'';
          nm = getAttribute element ''name''
      in nullish (js_or_b (opt_startsWith property ''twitter:'') (opt_startsWith nm ''twitter:''))
           False)"

definition Twitter_scrape :: "Element \<Rightarrow> (string \<times> string) option" where
  "Twitter_scrape element =
     (let property = js_or (getAttribute element ''property'') (getAttribute element ''name'');
          content = getAttribute element ''content''
      in if \<not> truthy property \<or> \<not> truthy content \<or> \<not> Twitter_canHandle element then None
         else (case (property, content) of
                 (Some p, Some c) \<Rightarrow> Some (slice p 8, c)
               | _ \<Rightarrow> None))"

definition TwitterProvider :: MetadataProvider where
  "TwitterProvider =
     \<lparr>name = ''twitter'', priority = 2, canHandle = Twitter_canHandle,
      scrape = Twitter_scrape, getValue = Provider_getValue\<rparr>"

paragraph \<open>providers/standard-meta-provider.ts\<close>

definition StandardMeta_canHandle :: "Element \<Rightarrow> bool" where
  "StandardMeta_canHandle element =
     (let property = getAttribute element ''property'';
          nm = getAttribute element ''name'';
          content = getAttribute element ''content''
      in truthy content \<and>
         truthy (js_or nm property) \<and>
         \<not> truthy_b (opt_startsWith nm ''og:'') \<and>
         \<not> truthy_b (opt_startsWith nm ''twitter:'') \<and>
         \<not> truthy_b (opt_startsWith property ''og:'') \<and>
         \<not> truthy_b (opt_startsWith property ''twitter:''))"

definition StandardMeta_scrape :: "Element \<Rightarrow> (string \<times> string) option" where
  "StandardMeta_scrape element =
     (let nm = js_or (getAttribute element ''name'') (getAttribute element ''property'');
          content = getAttribute element ''content''
      in if \<not> truthy nm \<or> \<not> truthy content \<or> \<not> StandardMeta_canHandle element then None
         else (case (nm, content) of
                 (Some n, Some c) \<Rightarrow> Some (n, c)
               | _ \<Rightarrow> None))"

definition StandardMetaProvider :: MetadataProvider where
  "StandardMetaProvider =
     \<lparr>name = ''meta'', priority = 3, canHandle = StandardMeta_canHandle,
      scrape = StandardMeta_scrape, getValue = Provider_getValue\<rparr>"

paragraph \<open>providers/other-elements-provider.ts\<close>

definition OtherElements_canHandle :: "Element \<Rightarrow> bool" where
  "OtherElements_canHandle element =
     (let tag = toLowerCase (tagName element)
      in tag = ''title'' \<or> tag = ''h1'' \<or> (tag = ''link'' \<and> truthy (getAttribute element ''rel'')))"

definition OtherElements_scrape :: "Element \<Rightarrow> (string \<times> string) option" where
  "OtherElements_scrape element =
     (let tag = toLowerCase (tagName element)
      in if tag = ''title'' \<and> truthy (textContent element)
         then map_option (\<lambda>text. (''title'', trim text)) (textContent element)
         else if tag = ''h1'' \<and> truthy (textContent element)
         then map_option (\<lambda>text. (''firstHeading'', trim text)) (textContent element)
         else if tag = ''link''
         then (let rel = getAttribute element ''rel'';
                   hrefAttr = getAttribute element ''href''
               in if truthy rel \<and> truthy hrefAttr
                  then (if rel = Some ''icon''
                        then map_option (\<lambda>h. (''icon'', h)) hrefAttr
                        else if rel = Some ''shortcut icon''
                        then map_option (\<lambda>h. (''shortcut icon'', h)) hrefAttr
                        else None)
                  else None)
         else None)"

definition OtherElementsProvider :: MetadataProvider where
  "OtherElementsProvider =
     \<lparr>name = ''other'', priority = 4, canHandle = OtherElements_canHandle,
      scrape = OtherElements_scrape, getValue = Provider_getValue\<rparr>"

paragraph \<open>providers/json-ld-provider.ts\<close>

text \<open>
  The value of \<^verbatim>\<open>JSON.parse\<close> is a JSON value. The parser itself belongs to the language, not
  to the repository: it is a parameter \<open>parse\<close> of the model, which either raises
  \<^verbatim>\<open>SyntaxError\<close> or returns a value. Reading a property of \<^verbatim>\<open>null\<close> raises \<^verbatim>\<open>TypeError\<close>;
  reading one of the properties named in this file from a number, a string, a boolean or
  an array gives \<^verbatim>\<open>undefined\<close>.
\<close>

datatype js_error = TypeError string | SyntaxError

datatype json =
    JNull
  | JBool bool
  | JNumber rat
  | JString string
  | JArray "json list"
  | JObject "(string \<times> json) list"

fun json_get :: "json \<Rightarrow> string \<Rightarrow> js_error + json option" where
  "json_get JNull k = Inl (TypeError ''Cannot read properties of null'')"
| "json_get (JObject kvs) k = Inr (map_of kvs k)"
| "json_get v k = Inr None"

fun json_truthy :: "json option \<Rightarrow> bool" where
  "json_truthy None = False"
| "json_truthy (Some JNull) = False"
| "json_truthy (Some (JBool b)) = b"
| "json_truthy (Some (JNumber n)) = (n \<noteq> 0)"
| "json_truthy (Some (JString s)) = (s \<noteq> [])"
| "json_truthy (Some v) = True"

definition JsonLd_canHandle :: "Element \<Rightarrow> bool" where
  "JsonLd_canHandle element =
     (toLowerCase (tagName element) = ''script''
      \<and> getAttribute element ''type'' = Some ''application/ld+json'')"

text \<open>
  The body of the \<^verbatim>\<open>try\<close> block, with what it raises as \<^term>\<open>Inl\<close>. The value it returns under
  a key is whatever JSON value the document holds there.
\<close>

definition JsonLd_scrape_try ::
  "(string \<Rightarrow> js_error + json) \<Rightarrow> Element \<Rightarrow> js_error + (string \<times> json) option" where
  "JsonLd_scrape_try parse element =
     (case textContent element of
        None \<Rightarrow> Inr None
      | Some content \<Rightarrow>
          if content = [] then Inr None
          else (case parse content of
             Inl e \<Rightarrow> Inl e
           | Inr jsonData \<Rightarrow>
              (case json_get jsonData ''@type'' of
                 Inl e \<Rightarrow> Inl e
               | Inr ty \<Rightarrow>
                  if ty = Some (JString ''Article'') \<or> ty = Some (JString ''WebPage'')
                  then (case json_get jsonData ''headline'' of
                     Inl e \<Rightarrow> Inl e
                   | Inr headline \<Rightarrow>
                      if json_truthy headline
                      then Inr (map_option (\<lambda>v. (''title'', v)) headline)
                      else (case json_get jsonData ''description'' of
                         Inl e \<Rightarrow> Inl e
                       | Inr description \<Rightarrow>
                          if json_truthy description
                          then Inr (map_option (\<lambda>v. (''description'', v)) description)
                          else (case json_get jsonData ''image'' of
                             Inl e \<Rightarrow> Inl e
                           | Inr None \<Rightarrow> Inr None
                           | Inr (Some img) \<Rightarrow>
                              if json_truthy (Some img)
                              then (case json_get img ''url'' of
                                 Inl e \<Rightarrow> Inl e
                               | Inr url \<Rightarrow>
                                  if json_truthy url
                                  then Inr (map_option (\<lambda>v. (''image'', v)) url)
                                  else Inr None)
                              else Inr None)))
                  else Inr None)))"

text \<open>The \<^verbatim>\<open>catch\<close> clause ignores whatever was raised; the method then returns \<^verbatim>\<open>null\<close>.\<close>

definition JsonLd_scrape ::
  "(string \<Rightarrow> js_error + json) \<Rightarrow> Element \<Rightarrow> (string \<times> json) option" where
  "JsonLd_scrape parse element =
     (case JsonLd_scrape_try parse element of Inl e \<Rightarrow> None | Inr r \<Rightarrow> r)"

subsection \<open>metadata.ts\<close>

record Metadata =
  providerData :: ProviderData
  registry :: ProviderRegistry
  feeds :: "Feed list"

definition new_Metadata :: "ProviderRegistry option \<Rightarrow> Metadata" where
  "new_Metadata r =
     (let reg = (case r of Some g \<Rightarrow> g | None \<Rightarrow> new_ProviderRegistry [])
      in \<lparr>providerData =
            foldl (\<lambda>pd provider. pd(name provider \<mapsto> Map.empty)) Map.empty (getProviders reg),
          registry = reg,
          feeds = []\<rparr>)"

definition addData :: "Metadata \<Rightarrow> string \<Rightarrow> string \<Rightarrow> string \<Rightarrow> Metadata" where
  "addData m providerName key v =
     (let data = (case providerData m providerName of None \<Rightarrow> Map.empty | Some d \<Rightarrow> d);
          values = (case data key of None \<Rightarrow> [] | Some vs \<Rightarrow> vs)
      in m\<lparr>providerData := (providerData m)(providerName \<mapsto> data(key \<mapsto> values @ [v]))\<rparr>)"

definition Metadata_resolveValue :: "Metadata \<Rightarrow> string \<Rightarrow> string option" where
  "Metadata_resolveValue m key = Registry_resolveValue (registry m) key (providerData m)"

definition favicon :: "Metadata \<Rightarrow> string" where
  "favicon m =
     js_or_default
       (js_or (Metadata_resolveValue m ''icon'') (Metadata_resolveValue m ''shortcut icon''))
       ''/favicon.ico''"

definition Metadata_title :: "Metadata \<Rightarrow> string option" where
  "Metadata_title m =
     js_or (Metadata_resolveValue m ''title'') (Metadata_resolveValue m ''firstHeading'')"

subsection \<open>scraper.ts\<close>

text \<open>
  The DOM is not part of the repository, so what a document answers to a selector is not
  fixed here: the object handed to \<^verbatim>\<open>scrape\<close> carries its own \<^verbatim>\<open>querySelectorAll\<close> and
  \<^verbatim>\<open>querySelector\<close>, each either a function from the selector string (to the list of the
  selected elements in document order, and to the first selected element or \<^verbatim>\<open>null\<close>) or not
  a function at all (\<^term>\<open>None\<close>). A falsy argument of \<^verbatim>\<open>scrape\<close> is \<^term>\<open>None\<close>.
\<close>

record DocumentObject =
  querySelectorAll :: "(string \<Rightarrow> Element list) option"
  querySelector :: "(string \<Rightarrow> Element option) option"

text \<open>
  The fields \<^verbatim>\<open>this.document\<close> and \<^verbatim>\<open>this.result\<close> of the class are passed explicitly: each
  phase takes the registry, the document and the accumulator, and returns the accumulator
  or the error it throws. Calling a member that is not a function throws a \<^verbatim>\<open>TypeError\<close>.
  The methods of a provider are total functions (see the conventions above), so dispatch
  itself does not throw; a provider method that threw would propagate through the phase.
\<close>

definition Scraper_scrapeFromElement :: "ProviderRegistry \<Rightarrow> Metadata \<Rightarrow> Element \<Rightarrow> Metadata" where
  "Scraper_scrapeFromElement reg result element =
     (case Registry_scrapeFromElement reg element of
        None \<Rightarrow> result
      | Some (provider, key, v) \<Rightarrow> addData result (name provider) key v)"

definition scrapeMetaTags ::
  "ProviderRegistry \<Rightarrow> DocumentObject \<Rightarrow> Metadata \<Rightarrow> js_error + Metadata" where
  "scrapeMetaTags reg document result =
     (case querySelectorAll document of
        None \<Rightarrow> Inl (TypeError ''this.document.querySelectorAll is not a function'')
      | Some select \<Rightarrow> Inr (foldl (Scraper_scrapeFromElement reg) result (select ''meta'')))"

definition scrapeTitleTag ::
  "ProviderRegistry \<Rightarrow> DocumentObject \<Rightarrow> Metadata \<Rightarrow> js_error + Metadata" where
  "scrapeTitleTag reg document result =
     (case querySelector document of
        None \<Rightarrow> Inl (TypeError ''this.document.querySelector is not a function'')
      | Some first \<Rightarrow>
          (case first ''title'' of
             Some titleTag \<Rightarrow> Inr (Scraper_scrapeFromElement reg result titleTag)
           | None \<Rightarrow> Inr result))"

definition scrapeHeadingTags ::
  "ProviderRegistry \<Rightarrow> DocumentObject \<Rightarrow> Metadata \<Rightarrow> js_error + Metadata" where
  "scrapeHeadingTags reg document result =
     (case querySelector document of
        None \<Rightarrow> Inl (TypeError ''this.document.querySelector is not a function'')
      | Some first \<Rightarrow>
          (case first ''h1'' of
             Some h1Tag \<Rightarrow> Inr (Scraper_scrapeFromElement reg result h1Tag)
           | None \<Rightarrow> Inr result))"

definition scrapeLinkTags ::
  "ProviderRegistry \<Rightarrow> DocumentObject \<Rightarrow> Metadata \<Rightarrow> js_error + Metadata" where
  "scrapeLinkTags reg document result =
     (case querySelectorAll document of
        None \<Rightarrow> Inl (TypeError ''this.document.querySelectorAll is not a function'')
      | Some select \<Rightarrow> Inr (foldl (Scraper_scrapeFromElement reg) result (select ''link[rel]'')))"

definition pushFeed :: "Metadata \<Rightarrow> Element \<Rightarrow> Metadata" where
  "pushFeed result tag =
     (let titleAttr = js_or (getAttribute tag ''title'') None;
          typeAttr = js_or_default (getAttribute tag ''type'') '''';
          hrefAttr = getAttribute tag ''href''
      in if truthy hrefAttr
         then (case hrefAttr of
                 Some h \<Rightarrow> result\<lparr>feeds := feeds result @ [\<lparr>title = titleAttr, type = typeAttr, href = h\<rparr>]\<rparr>
               | None \<Rightarrow> result)
         else result)"

definition scrapeFeedLinks :: "DocumentObject \<Rightarrow> Metadata \<Rightarrow> js_error + Metadata" where
  "scrapeFeedLinks document result =
     (case querySelectorAll document of
        None \<Rightarrow> Inl (TypeError ''this.document.querySelectorAll is not a function'')
      | Some select \<Rightarrow> Inr (foldl pushFeed result (select ''link[rel='alternate']'')))"

text \<open>
  The phases are chained by method calls: when one throws, the rest of the chain does not
  run.
\<close>

definition and_then :: "js_error + 'a \<Rightarrow> ('a \<Rightarrow> js_error + 'b) \<Rightarrow> js_error + 'b" where
  "and_then r f = (case r of Inl err \<Rightarrow> Inl err | Inr x \<Rightarrow> f x)"

text \<open>
  \<^verbatim>\<open>scrape\<close> is an \<^verbatim>\<open>async\<close> method: what it throws rejects the promise it returns. The
  result is \<^term>\<open>Inl\<close> of the error thrown, or \<^term>\<open>Inr\<close> of the accumulator. The guard is
  \<^verbatim>\<open>!document || typeof document.querySelectorAll !== "function"\<close>.
\<close>

definition Scraper_scrape :: "ProviderRegistry \<Rightarrow> DocumentObject option \<Rightarrow> js_error + Metadata" where
  "Scraper_scrape reg input =
     (case input of
        None \<Rightarrow> Inl (TypeError ''DOM Document expected.'')
      | Some document \<Rightarrow>
          if querySelectorAll document = None
          then Inl (TypeError ''DOM Document expected.'')
          else and_then (and_then (and_then (and_then
                 (scrapeMetaTags reg document (new_Metadata (Some reg)))
                 (scrapeTitleTag reg document))
                 (scrapeHeadingTags reg document))
                 (scrapeLinkTags reg document))
                 (scrapeFeedLinks document))"

subsection \<open>Field resolution, declaratively\<close>

text \<open>
  What a provider answers for a field, given the accumulated data: nothing when the data
  has no entry under the provider's name, else what its \<^verbatim>\<open>getValue\<close> returns.
\<close>

definition provider_answer :: "MetadataProvider \<Rightarrow> string \<Rightarrow> ProviderData \<Rightarrow> string option" where
  "provider_answer p key pd =
     (case pd (name p) of None \<Rightarrow> None | Some data \<Rightarrow> getValue p key data)"

text \<open>
  The specification's \<^verbatim>\<open>resolveField\<close>, read literally: the answer of the first provider, in
  the given order, that has any value for the field; none if no provider has one.
\<close>

fun spec_resolveField :: "MetadataProvider list \<Rightarrow> string \<Rightarrow> ProviderData \<Rightarrow> string option" where
  "spec_resolveField [] key pd = None"
| "spec_resolveField (p # rest) key pd =
     (case provider_answer p key pd of
        Some v \<Rightarrow> Some v
      | None \<Rightarrow> spec_resolveField rest key pd)"

text \<open>A run of \<^verbatim>\<open>addData\<close> calls, each given as provider name, key and value.\<close>

definition addAll :: "Metadata \<Rightarrow> (string \<times> string \<times> string) list \<Rightarrow> Metadata" where
  "addAll m calls = foldl (\<lambda>acc (providerName, key, v). addData acc providerName key v) m calls"

text \<open>
  A provider's data shows nothing for a key when the list under the key is missing, is
  empty, or starts with the empty string.
\<close>

definition shows_nothing :: "FieldData \<Rightarrow> string \<Rightarrow> bool" where
  "shows_nothing data key =
     (case data key of None \<Rightarrow> True | Some [] \<Rightarrow> True | Some (v # _) \<Rightarrow> v = [])"

subsection \<open>The feed record of an element, declaratively\<close>

text \<open>
  What one selected element contributes to the feed list: nothing unless its \<^verbatim>\<open>href\<close> is
  present and non-empty; then one record, with the \<^verbatim>\<open>title\<close> attribute if present and
  non-empty, and the \<^verbatim>\<open>type\<close> attribute or the empty string.
\<close>

definition feed_records :: "Element \<Rightarrow> Feed list" where
  "feed_records e =
     (case getAttribute e ''href'' of
        None \<Rightarrow> []
      | Some h \<Rightarrow>
          if h = [] then []
          else [\<lparr>title = (case getAttribute e ''title'' of
                            None \<Rightarrow> None
                          | Some t \<Rightarrow> if t = [] then None else Some t),
                 type = (case getAttribute e ''type'' of None \<Rightarrow> [] | Some t \<Rightarrow> t),
                 href = h\<rparr>])"

text \<open>The nodes the four dispatching phases visit, in the order they visit them.\<close>

definition dispatched_nodes ::
  "(string \<Rightarrow> Element list) \<Rightarrow> (string \<Rightarrow> Element option) \<Rightarrow> Element list" where
  "dispatched_nodes select first =
     select ''meta''
     @ (case first ''title'' of None \<Rightarrow> [] | Some t \<Rightarrow> [t])
     @ (case first ''h1'' of None \<Rightarrow> [] | Some h \<Rightarrow> [h])
     @ select ''link[rel]''"

subsection \<open>Concrete registries, nodes and data used in the examples\<close>

definition og_title_node :: Element where
  "og_title_node =
     \<lparr>tagName = ''TITLE'', attributes = [''property'' \<mapsto> ''og:title''], textContent = Some ''Hello''\<rparr>"

definition defaults :: "MetadataProvider list" where
  "defaults = [OpenGraphProvider, TwitterProvider, StandardMetaProvider, OtherElementsProvider]"

definition blank_og_title :: ProviderData where
  "blank_og_title =
     [''openGraph'' \<mapsto> [''title'' \<mapsto> ['''']], ''twitter'' \<mapsto> [''title'' \<mapsto> [''T1'']]]"

definition blank_other_title :: ProviderData where
  "blank_other_title = [''other'' \<mapsto> [''title'' \<mapsto> ['''']]]"

definition titles_data :: ProviderData where
  "titles_data =
     [''twitter'' \<mapsto> [''title'' \<mapsto> [''T1'', ''T1b'']], ''meta'' \<mapsto> [''title'' \<mapsto> [''T2'']]]"

definition blank_icon_metadata :: Metadata where
  "blank_icon_metadata =
     addData (new_Metadata (Some (new_ProviderRegistry defaults))) ''openGraph'' ''icon'' ''''"

definition no_icon_calls :: "(string \<times> string \<times> string) list" where
  "no_icon_calls = [(''meta'', ''title'', ''T2''), (''openGraph'', ''image'', ''/i.png'')]"

definition div_with_name :: Element where
  "div_with_name =
     \<lparr>tagName = ''DIV'', attributes = [''name'' \<mapsto> ''description'', ''content'' \<mapsto> ''About''],
      textContent = None\<rparr>"

definition meta_blank_name :: Element where
  "meta_blank_name =
     \<lparr>tagName = ''META'', attributes = [''name'' \<mapsto> '''', ''content'' \<mapsto> ''About''],
      textContent = None\<rparr>"

definition meta_description :: Element where
  "meta_description =
     \<lparr>tagName = ''META'', attributes = [''name'' \<mapsto> ''description'', ''content'' \<mapsto> ''About''],
      textContent = None\<rparr>"

definition blank_title :: Element where
  "blank_title = \<lparr>tagName = ''TITLE'', attributes = Map.empty, textContent = Some ''   ''\<rparr>"

definition blank_h1 :: Element where
  "blank_h1 = \<lparr>tagName = ''H1'', attributes = Map.empty, textContent = Some [CHR 0x20, CHR 0x0A]\<rparr>"

definition empty_title :: Element where
  "empty_title = \<lparr>tagName = ''TITLE'', attributes = Map.empty, textContent = Some ''''\<rparr>"

definition twitter_named_meta :: Element where
  "twitter_named_meta =
     \<lparr>tagName = ''META'',
      attributes = [''property'' \<mapsto> ''article:author'', ''name'' \<mapsto> ''twitter:creator'',
                    ''content'' \<mapsto> ''@a''],
      textContent = None\<rparr>"

definition og_named_meta :: Element where
  "og_named_meta =
     \<lparr>tagName = ''META'',
      attributes = [''property'' \<mapsto> ''article:tag'', ''name'' \<mapsto> ''og:title'',
                    ''content'' \<mapsto> ''Hello''],
      textContent = None\<rparr>"

definition feed_link :: Element where
  "feed_link =
     \<lparr>tagName = ''LINK'',
      attributes = [''rel'' \<mapsto> ''alternate'', ''type'' \<mapsto> ''application/rss+xml'',
                    ''title'' \<mapsto> ''Feed'', ''href'' \<mapsto> ''/f.xml''],
      textContent = None\<rparr>"

definition feed_link_no_href :: Element where
  "feed_link_no_href =
     \<lparr>tagName = ''LINK'',
      attributes = [''rel'' \<mapsto> ''alternate'', ''type'' \<mapsto> ''application/rss+xml'',
                    ''title'' \<mapsto> ''Feed''],
      textContent = None\<rparr>"

definition feed_link_blank_href :: Element where
  "feed_link_blank_href =
     \<lparr>tagName = ''LINK'',
      attributes = [''rel'' \<mapsto> ''alternate'', ''type'' \<mapsto> ''application/rss+xml'',
                    ''title'' \<mapsto> ''Feed'', ''href'' \<mapsto> ''''],
      textContent = None\<rparr>"

definition feed_link_blank_title :: Element where
  "feed_link_blank_title =
     \<lparr>tagName = ''LINK'',
      attributes = [''rel'' \<mapsto> ''alternate'', ''title'' \<mapsto> '''', ''href'' \<mapsto> ''/f.xml''],
      textContent = None\<rparr>"

definition sample_document :: "Element list" where
  "sample_document = [meta_description, blank_title, feed_link, feed_link_no_href]"

definition plain_div :: Element where
  "plain_div = \<lparr>tagName = ''DIV'', attributes = Map.empty, textContent = Some ''text''\<rparr>"

definition ld_script :: Element where
  "ld_script =
     \<lparr>tagName = ''SCRIPT'', attributes = [''type'' \<mapsto> ''application/ld+json''],
      textContent = Some ''{oops''\<rparr>"

definition failing_parse :: "string \<Rightarrow> js_error + json" where
  "failing_parse s = Inl SyntaxError"

definition null_parse :: "string \<Rightarrow> js_error + json" where
  "null_parse s = Inr JNull"

text \<open>
  A sample DOM for the examples: an HTML document holding the HTML elements \<open>els\<close> in
  document order, answering the five selectors the driver uses. In an HTML document a tag
  selector matches whatever the case of the tag name, and the value of \<^verbatim>\<open>rel\<close> in an
  attribute selector is compared without regard to ASCII case.
\<close>

definition html_matches :: "string \<Rightarrow> Element \<Rightarrow> bool" where
  "html_matches sel e =
     (let tag = toLowerCase (tagName e)
      in if sel = ''meta'' then tag = ''meta''
         else if sel = ''title'' then tag = ''title''
         else if sel = ''h1'' then tag = ''h1''
         else if sel = ''link[rel]'' then tag = ''link'' \<and> getAttribute e ''rel'' \<noteq> None
         else if sel = ''link[rel='alternate']''
         then tag = ''link'' \<and> map_option toLowerCase (getAttribute e ''rel'') = Some ''alternate''
         else False)"

definition html_document :: "Element list \<Rightarrow> DocumentObject" where
  "html_document els =
     \<lparr>querySelectorAll = Some (\<lambda>sel. filter (html_matches sel) els),
      querySelector = Some (\<lambda>sel. find (html_matches sel) els)\<rparr>"

definition feed_link_upper_rel :: Element where
  "feed_link_upper_rel =
     \<lparr>tagName = ''LINK'', attributes = [''rel'' \<mapsto> ''ALTERNATE'', ''href'' \<mapsto> ''/f.xml''],
      textContent = None\<rparr>"

text \<open>An object that can select all elements of a kind and has no \<^verbatim>\<open>querySelector\<close>.\<close>

definition select_all_only :: DocumentObject where
  "select_all_only =
     \<lparr>querySelectorAll = Some (\<lambda>sel. if sel = ''meta'' then [meta_description] else []),
      querySelector = None\<rparr>"

text \<open>An object without \<^verbatim>\<open>querySelectorAll\<close>, such as \<^verbatim>\<open>{}\<close>.\<close>

definition empty_object :: DocumentObject where
  "empty_object = \<lparr>querySelectorAll = None, querySelector = None\<rparr>"

subsection \<open>The registry keeps its providers in stable priority order\<close>

lemma insert_by_priority:
  "insert_by (\<lambda>a b. f a - f b) x ys = insort_key f x ys"
  by (induction ys) simp_all

lemma Array_sort_priority:
  "Array_sort (\<lambda>a b. f a - f b) xs = sort_key f xs"
  by (simp add: Array_sort_def sort_key_def insert_by_priority [abs_def])

lemma sort_key_resort_snoc:
  "sort_key f (sort_key f xs @ [p]) = sort_key f (xs @ [p])"
proof (rule properties_for_sort_key)
  show "mset (sort_key f (xs @ [p])) = mset (sort_key f xs @ [p])"
    by simp
next
  fix k
  have "filter (\<lambda>x. f x = f k) (sort_key f (xs @ [p])) = filter (\<lambda>x. f x = f k) (xs @ [p])"
    by (rule sort_key_stable)
  moreover have "filter (\<lambda>x. f x = f k) (sort_key f xs) = filter (\<lambda>x. f x = f k) xs"
    by (rule sort_key_stable)
  ultimately show "filter (\<lambda>x. f k = f x) (sort_key f (xs @ [p]))
      = filter (\<lambda>x. f k = f x) (sort_key f xs @ [p])"
    by (simp add: eq_commute [of "f k"])
next
  show "sorted (map f (sort_key f (xs @ [p])))"
    by simp
qed

lemma providers_new_ProviderRegistry:
  "providers (new_ProviderRegistry ps) = sort_key priority ps"
proof (induction ps rule: rev_induct)
  case Nil
  show ?case by (simp add: new_ProviderRegistry_def)
next
  case (snoc p ps)
  have "providers (new_ProviderRegistry (ps @ [p]))
      = sort_key priority (providers (new_ProviderRegistry ps) @ [p])"
    by (simp add: new_ProviderRegistry_def registerProvider_def Array_sort_priority)
  with snoc show ?case
    by (simp only: sort_key_resort_snoc)
qed

lemma new_ProviderRegistry_snoc:
  "new_ProviderRegistry (ps @ [p]) = registerProvider (new_ProviderRegistry ps) p"
  by (simp add: new_ProviderRegistry_def)

subsection \<open>Selectors of the built-in providers\<close>

lemma OpenGraphProvider_sel:
  "name OpenGraphProvider = ''openGraph''" "priority OpenGraphProvider = 1"
  "canHandle OpenGraphProvider = OpenGraph_canHandle" "scrape OpenGraphProvider = OpenGraph_scrape"
  "getValue OpenGraphProvider = Provider_getValue"
  by (simp_all add: OpenGraphProvider_def)

lemma TwitterProvider_sel:
  "name TwitterProvider = ''twitter''" "priority TwitterProvider = 2"
  "canHandle TwitterProvider = Twitter_canHandle" "scrape TwitterProvider = Twitter_scrape"
  "getValue TwitterProvider = Provider_getValue"
  by (simp_all add: TwitterProvider_def)

lemma StandardMetaProvider_sel:
  "name StandardMetaProvider = ''meta''" "priority StandardMetaProvider = 3"
  "canHandle StandardMetaProvider = StandardMeta_canHandle" "scrape StandardMetaProvider = StandardMeta_scrape"
  "getValue StandardMetaProvider = Provider_getValue"
  by (simp_all add: StandardMetaProvider_def)

lemma OtherElementsProvider_sel:
  "name OtherElementsProvider = ''other''" "priority OtherElementsProvider = 4"
  "canHandle OtherElementsProvider = OtherElements_canHandle" "scrape OtherElementsProvider = OtherElements_scrape"
  "getValue OtherElementsProvider = Provider_getValue"
  by (simp_all add: OtherElementsProvider_def)

lemmas provider_sel = OpenGraphProvider_sel TwitterProvider_sel StandardMetaProvider_sel OtherElementsProvider_sel

subsection \<open>Dispatch\<close>

lemma scrapeFromElement_loop_find:
  "scrapeFromElement_loop ps e =
     (case find (\<lambda>p. canHandle p e \<and> scrape p e \<noteq> None) ps of
        None \<Rightarrow> None
      | Some p \<Rightarrow> map_option (Pair p) (scrape p e))"
  by (induction ps) (auto split: option.splits)

lemma find_first_in_sorted:
  assumes "sorted (map f xs)" and "b \<in> set xs" and "P b"
    and "\<forall>q \<in> set xs. f q \<le> f b \<and> q \<noteq> b \<longrightarrow> \<not> P q"
  shows "find P xs = Some b"
  using assms
proof (induction xs)
  case Nil
  then show ?case by simp
next
  case (Cons x xs)
  show ?case
  proof (cases "x = b")
    case True
    with Cons.prems show ?thesis by simp
  next
    case False
    with Cons.prems have b: "b \<in> set xs" by simp
    with Cons.prems have "f x \<le> f b" by simp
    with False Cons.prems have "\<not> P x" by simp
    moreover from Cons.prems b have "find P xs = Some b"
      by (intro Cons.IH) simp_all
    ultimately show ?thesis by simp
  qed
qed

subsection \<open>Resolution\<close>

lemma resolveValue_loop_Cons:
  "resolveValue_loop (p # ps) key pd =
     (if truthy (provider_answer p key pd) then provider_answer p key pd
      else resolveValue_loop ps key pd)"
  by (simp add: provider_answer_def Let_def truthy_def split: option.splits)

declare resolveValue_loop.simps(2) [simp del]

lemma resolveValue_loop_append:
  "resolveValue_loop (xs @ ys) key pd =
     (case resolveValue_loop xs key pd of
        Some v \<Rightarrow> Some v
      | None \<Rightarrow> resolveValue_loop ys key pd)"
proof (induction xs)
  case Nil
  show ?case by simp
next
  case (Cons x xs)
  show ?case
  proof (cases "truthy (provider_answer x key pd)")
    case True
    then obtain v where "provider_answer x key pd = Some v"
      by (cases "provider_answer x key pd") (simp_all add: truthy_def)
    with True show ?thesis
      by (simp only: append_Cons resolveValue_loop_Cons if_True option.case)
  next
    case False
    with Cons.IH show ?thesis
      by (simp only: append_Cons resolveValue_loop_Cons if_False)
  qed
qed

lemma resolveValue_loop_truthy:
  "resolveValue_loop ps key pd = Some v \<Longrightarrow> v \<noteq> []"
proof (induction ps)
  case Nil
  then show ?case by simp
next
  case (Cons p ps)
  show ?case
  proof (cases "truthy (provider_answer p key pd)")
    case True
    with Cons.prems show ?thesis
      by (simp add: resolveValue_loop_Cons truthy_def)
  next
    case False
    with Cons show ?thesis
      by (simp add: resolveValue_loop_Cons)
  qed
qed

lemma resolveValue_loop_nothing:
  assumes "\<forall>p \<in> set ps. \<not> truthy (provider_answer p key pd)"
  shows "resolveValue_loop ps key pd = None"
  using assms by (induction ps) (simp_all add: resolveValue_loop_Cons)

lemma answer_shows_nothing:
  assumes "getValue p = Provider_getValue"
    and "\<And>data. pd (name p) = Some data \<Longrightarrow> shows_nothing data key"
  shows "\<not> truthy (provider_answer p key pd)"
proof (cases "pd (name p)")
  case None
  then show ?thesis by (simp add: provider_answer_def truthy_def)
next
  case (Some data)
  with assms(2) have "shows_nothing data key" by simp
  with Some assms(1) show ?thesis
    by (auto simp: provider_answer_def truthy_def shows_nothing_def Provider_getValue_def
        split: option.splits list.splits)
qed

lemma favicon_chain:
  "favicon m =
     (case Metadata_resolveValue m ''icon'' of
        Some v \<Rightarrow> v
      | None \<Rightarrow> (case Metadata_resolveValue m ''shortcut icon'' of
                  Some v \<Rightarrow> v
                | None \<Rightarrow> ''/favicon.ico''))"
proof -
  have ne: "Metadata_resolveValue m key = Some v \<Longrightarrow> v \<noteq> []" for key v
    unfolding Metadata_resolveValue_def Registry_resolveValue_def
    by (rule resolveValue_loop_truthy)
  show ?thesis
  proof (cases "Metadata_resolveValue m ''icon''")
    case None
    show ?thesis
    proof (cases "Metadata_resolveValue m ''shortcut icon''")
      case None
      with \<open>Metadata_resolveValue m ''icon'' = None\<close> show ?thesis
        by (simp add: favicon_def js_or_def js_or_default_def truthy_def)
    next
      case (Some v)
      with ne have "v \<noteq> []" by blast
      with Some \<open>Metadata_resolveValue m ''icon'' = None\<close> show ?thesis
        by (simp add: favicon_def js_or_def js_or_default_def truthy_def)
    qed
  next
    case (Some v)
    with ne have "v \<noteq> []" by blast
    with Some show ?thesis
      by (simp add: favicon_def js_or_def js_or_default_def truthy_def)
  qed
qed

lemma favicon_default:
  assumes std: "\<forall>p \<in> set (providers (registry m)). getValue p = Provider_getValue"
    and blank: "\<forall>n data. providerData m n = Some data \<longrightarrow>
        shows_nothing data ''icon'' \<and> shows_nothing data ''shortcut icon''"
  shows "favicon m = ''/favicon.ico''"
proof -
  have "Metadata_resolveValue m key = None" if "key = ''icon'' \<or> key = ''shortcut icon''" for key
    unfolding Metadata_resolveValue_def Registry_resolveValue_def
  proof (rule resolveValue_loop_nothing, rule ballI)
    fix p assume "p \<in> set (providers (registry m))"
    with std have "getValue p = Provider_getValue" by blast
    moreover have "shows_nothing data key" if "providerData m (name p) = Some data" for data
      using blank that \<open>key = ''icon'' \<or> key = ''shortcut icon''\<close> by blast
    ultimately show "\<not> truthy (provider_answer p key (providerData m))"
      by (rule answer_shows_nothing)
  qed
  then have "Metadata_resolveValue m ''icon'' = None" "Metadata_resolveValue m ''shortcut icon'' = None"
    by simp_all
  then show ?thesis by (simp add: favicon_chain)
qed

lemma seed_providerData:
  "foldl (\<lambda>pd provider. pd(name provider \<mapsto> Map.empty)) pd0 ps n = Some data
   \<Longrightarrow> data = Map.empty \<or> pd0 n = Some data"
proof (induction ps arbitrary: pd0)
  case Nil
  then show ?case by simp
next
  case (Cons a ps)
  from Cons.prems have "foldl (\<lambda>pd provider. pd(name provider \<mapsto> Map.empty))
      (pd0(name a \<mapsto> Map.empty)) ps n = Some data"
    by (simp only: foldl_Cons)
  then have "data = Map.empty \<or> (pd0(name a \<mapsto> Map.empty)) n = Some data"
    by (rule Cons.IH)
  then show ?case by (auto split: if_splits)
qed

lemma new_Metadata_data:
  "providerData (new_Metadata (Some reg)) n = Some data \<Longrightarrow> data = Map.empty"
  using seed_providerData [of Map.empty "getProviders reg" n data]
  by (simp add: new_Metadata_def)

lemma new_Metadata_registry [simp]: "registry (new_Metadata (Some reg)) = reg"
  by (simp add: new_Metadata_def)

lemma addData_registry [simp]: "registry (addData m pn k v) = registry m"
  by (simp add: addData_def Let_def)

lemma addAll_registry [simp]: "registry (addAll m calls) = registry m"
  unfolding addAll_def by (induction calls arbitrary: m) (simp_all split: prod.splits)

lemma addData_other_key:
  assumes "\<forall>n data. providerData m n = Some data \<longrightarrow> data key = None" and "k \<noteq> key"
  shows "\<forall>n data. providerData (addData m pn k v) n = Some data \<longrightarrow> data key = None"
  using assms by (auto simp: addData_def Let_def split: option.splits if_splits)

lemma addAll_other_keys:
  assumes "\<forall>n data. providerData m n = Some data \<longrightarrow> data key = None"
    and "\<forall>(pn, k, v) \<in> set calls. k \<noteq> key"
  shows "\<forall>n data. providerData (addAll m calls) n = Some data \<longrightarrow> data key = None"
  using assms
proof (induction calls arbitrary: m)
  case Nil
  then show ?case by (simp add: addAll_def)
next
  case (Cons c calls)
  obtain pn k v where c: "c = (pn, k, v)" by (cases c)
  with Cons.prems have "k \<noteq> key" by simp
  with Cons.prems(1) have "\<forall>n data. providerData (addData m pn k v) n = Some data \<longrightarrow> data key = None"
    by (rule addData_other_key)
  moreover from Cons.prems have "\<forall>(pn, k, v) \<in> set calls. k \<noteq> key" by simp
  ultimately have "\<forall>n data. providerData (addAll (addData m pn k v) calls) n = Some data \<longrightarrow> data key = None"
    by (rule Cons.IH)
  then show ?case by (simp add: addAll_def c)
qed

lemma resolveValue_loop_find:
  "resolveValue_loop ps key pd =
     (case find (\<lambda>p. truthy (provider_answer p key pd)) ps of
        None \<Rightarrow> None
      | Some p \<Rightarrow> provider_answer p key pd)"
  by (induction ps) (simp_all only: resolveValue_loop_Cons resolveValue_loop.simps find.simps
      option.case if_distrib [of "case_option None (\<lambda>p. provider_answer p key pd)"] split: if_splits)

subsection \<open>The default registry\<close>

lemma providers_defaults:
  "providers (new_ProviderRegistry defaults) = defaults"
  by (simp add: providers_new_ProviderRegistry defaults_def provider_sel)

lemma defaults_getValue:
  "\<forall>p \<in> set (getProviders (new_ProviderRegistry defaults)). getValue p = Provider_getValue"
  by (simp add: getProviders_def providers_defaults) (simp add: defaults_def provider_sel)

lemma resolveValue_defaults:
  "Registry_resolveValue (new_ProviderRegistry defaults) key pd = resolveValue_loop defaults key pd"
  by (simp add: Registry_resolveValue_def providers_defaults)

subsection \<open>Strings\<close>

lemmas js_defs = getAttribute_def opt_startsWith_def startsWith_def js_or_b_def truthy_b_def
  nullish_def js_or_def truthy_def slice_def

lemma trim_whitespace_only:
  assumes "\<forall>c \<in> set s. isWhiteSpace c"
  shows "trim s = []"
proof -
  from assms have d: "dropWhile isWhiteSpace s = []" by simp
  show ?thesis unfolding trim_def d by simp
qed

subsection \<open>The driver\<close>

lemma feeds_addData [simp]: "feeds (addData m pn k v) = feeds m"
  by (simp add: addData_def Let_def)

lemma feeds_scrapeFromElement [simp]: "feeds (Scraper_scrapeFromElement reg m e) = feeds m"
  by (simp add: Scraper_scrapeFromElement_def split: option.splits prod.splits)

lemma feeds_dispatch_all [simp]: "feeds (foldl (Scraper_scrapeFromElement reg) m es) = feeds m"
  by (induction es arbitrary: m) simp_all

lemma feeds_new_Metadata [simp]: "feeds (new_Metadata r) = []"
  by (simp add: new_Metadata_def Let_def)

lemma feeds_pushFeed:
  "feeds (pushFeed m e) = feeds m @ feed_records e"
  by (cases "getAttribute e ''href''"; cases "getAttribute e ''title''";
      cases "getAttribute e ''type''")
    (simp_all add: pushFeed_def feed_records_def Let_def truthy_def js_or_def js_or_default_def)

lemma feeds_pushFeed_all:
  "feeds (foldl pushFeed m es) = feeds m @ concat (map feed_records es)"
  by (induction es arbitrary: m) (simp_all add: feeds_pushFeed)

lemma Scraper_scrape_run:
  assumes "querySelectorAll d = Some select" and "querySelector d = Some first"
  shows "Scraper_scrape reg (Some d) =
    Inr (foldl pushFeed
          (foldl (Scraper_scrapeFromElement reg) (new_Metadata (Some reg))
             (dispatched_nodes select first))
          (select ''link[rel='alternate']''))"
  using assms
  by (simp add: Scraper_scrape_def scrapeMetaTags_def scrapeTitleTag_def scrapeHeadingTags_def
      scrapeLinkTags_def scrapeFeedLinks_def and_then_def dispatched_nodes_def
      split: option.splits)

lemma Scraper_scrape_feeds:
  assumes "querySelectorAll d = Some select" and "querySelector d = Some first"
  shows "map_sum id feeds (Scraper_scrape reg (Some d))
    = Inr (concat (map feed_records (select ''link[rel='alternate']'')))"
  by (simp add: Scraper_scrape_run [OF assms] feeds_pushFeed_all)

lemma html_document_sel:
  "querySelectorAll (html_document els) = Some (\<lambda>sel. filter (html_matches sel) els)"
  "querySelector (html_document els) = Some (\<lambda>sel. find (html_matches sel) els)"
  by (simp_all add: html_document_def)

lemma html_document_feeds:
  "map_sum id feeds (Scraper_scrape reg (Some (html_document els)))
    = Inr (concat (map feed_records (filter (html_matches ''link[rel='alternate']'') els)))"
  by (rule Scraper_scrape_feeds [OF html_document_sel])

lemma sample_document_nodes:
  "dispatched_nodes (\<lambda>sel. filter (html_matches sel) sample_document)
     (\<lambda>sel. find (html_matches sel) sample_document)
   = [meta_description, blank_title, feed_link, feed_link_no_href]"
  "filter (html_matches ''link[rel='alternate']'') sample_document = [feed_link, feed_link_no_href]"
  by (simp_all add: dispatched_nodes_def sample_document_def html_matches_def
      meta_description_def blank_title_def feed_link_def feed_link_no_href_def getAttribute_def
      toLowerCase_def lower_char_def)

lemma sample_document_dispatch:
  "Registry_scrapeFromElement (new_ProviderRegistry defaults) meta_description
     = Some (StandardMetaProvider, ''description'', ''About'')"
  "Registry_scrapeFromElement (new_ProviderRegistry defaults) blank_title
     = Some (OtherElementsProvider, ''title'', '''')"
  "Registry_scrapeFromElement (new_ProviderRegistry defaults) feed_link = None"
  "Registry_scrapeFromElement (new_ProviderRegistry defaults) feed_link_no_href = None"
  "Registry_scrapeFromElement (new_ProviderRegistry defaults) plain_div = None"
  unfolding Registry_scrapeFromElement_def providers_defaults
  by (simp_all add: defaults_def provider_sel meta_description_def blank_title_def feed_link_def
      feed_link_no_href_def plain_div_def OpenGraph_canHandle_def Twitter_canHandle_def
      StandardMeta_canHandle_def StandardMeta_scrape_def OtherElements_canHandle_def
      OtherElements_scrape_def js_defs toLowerCase_def lower_char_def trim_def isWhiteSpace_def)

subsection \<open>Dispatch falls through to the first provider that extracts\<close>

text \<open>
  C1. For every node \<open>e\<close> and every registry (built by registering the providers \<open>ps\<close> in
  any order), dispatch returns the result of the first provider, in ascending order of
  priority with ties in registration order, that both recognizes \<open>e\<close> and extracts from it.
  In particular a provider \<open>b\<close> that recognizes and extracts wins as soon as every other
  provider of the same or a smaller priority number fails to recognize \<open>e\<close> or extracts
  nothing from it, even if that provider recognized \<open>e\<close>; and if no provider extracts
  anything the result is none.
\<close>

theorem dispatch_first_success:
  "Registry_scrapeFromElement (new_ProviderRegistry ps) e =
     (case find (\<lambda>p. canHandle p e \<and> scrape p e \<noteq> None) (sort_key priority ps) of
        None \<Rightarrow> None
      | Some p \<Rightarrow> map_option (Pair p) (scrape p e))
   \<and> (b \<in> set ps \<and> canHandle b e \<and> scrape b e = Some d
        \<and> (\<forall>q \<in> set ps. priority q \<le> priority b \<and> q \<noteq> b \<longrightarrow> \<not> canHandle q e \<or> scrape q e = None)
      \<longrightarrow> Registry_scrapeFromElement (new_ProviderRegistry ps) e = Some (b, d))
   \<and> ((\<forall>q \<in> set ps. \<not> canHandle q e \<or> scrape q e = None)
      \<longrightarrow> Registry_scrapeFromElement (new_ProviderRegistry ps) e = None)"
proof -
  let ?P = "\<lambda>p. canHandle p e \<and> scrape p e \<noteq> None"
  have eq: "Registry_scrapeFromElement (new_ProviderRegistry ps) e =
     (case find ?P (sort_key priority ps) of
        None \<Rightarrow> None
      | Some p \<Rightarrow> map_option (Pair p) (scrape p e))"
    by (simp only: Registry_scrapeFromElement_def providers_new_ProviderRegistry
        scrapeFromElement_loop_find)
  have first: "Registry_scrapeFromElement (new_ProviderRegistry ps) e = Some (b, d)"
    if b: "b \<in> set ps" "canHandle b e" "scrape b e = Some d"
      and others: "\<forall>q \<in> set ps. priority q \<le> priority b \<and> q \<noteq> b \<longrightarrow> \<not> canHandle q e \<or> scrape q e = None"
  proof -
    have "find ?P (sort_key priority ps) = Some b"
    proof (rule find_first_in_sorted [where f = priority])
      show "sorted (map priority (sort_key priority ps))" by simp
      show "b \<in> set (sort_key priority ps)" using b by simp
      show "?P b" using b by simp
      show "\<forall>q \<in> set (sort_key priority ps). priority q \<le> priority b \<and> q \<noteq> b \<longrightarrow> \<not> ?P q"
        using others by auto
    qed
    with b show ?thesis by (simp add: eq)
  qed
  have none: "Registry_scrapeFromElement (new_ProviderRegistry ps) e = None"
    if "\<forall>q \<in> set ps. \<not> canHandle q e \<or> scrape q e = None"
  proof -
    from that have "find ?P (sort_key priority ps) = None"
      by (auto simp: find_None_iff)
    then show ?thesis by (simp add: eq)
  qed
  from eq first none show ?thesis by blast
qed

text \<open>
  A \<^verbatim>\<open>title\<close> element carrying \<^verbatim>\<open>property="og:title"\<close>: OpenGraph (priority 1) recognizes it and
  extracts nothing, as it has no \<^verbatim>\<open>content\<close>; OtherElements (priority 4) wins.
\<close>

lemma og_title_node_facts:
  "canHandle OpenGraphProvider og_title_node"
  "scrape OpenGraphProvider og_title_node = None"
  "\<not> canHandle TwitterProvider og_title_node"
  "\<not> canHandle StandardMetaProvider og_title_node"
  "canHandle OtherElementsProvider og_title_node"
  "scrape OtherElementsProvider og_title_node = Some (''title'', ''Hello'')"
  by (simp_all add: provider_sel og_title_node_def OpenGraph_canHandle_def OpenGraph_scrape_def
      Twitter_canHandle_def StandardMeta_canHandle_def OtherElements_canHandle_def
      OtherElements_scrape_def getAttribute_def opt_startsWith_def startsWith_def js_or_b_def
      truthy_b_def nullish_def js_or_def truthy_def toLowerCase_def lower_char_def trim_def
      isWhiteSpace_def)

lemma plain_div_facts:
  "\<not> canHandle OpenGraphProvider plain_div"
  "\<not> canHandle TwitterProvider plain_div"
  "\<not> canHandle StandardMetaProvider plain_div"
  "\<not> canHandle OtherElementsProvider plain_div"
  by (simp_all add: provider_sel plain_div_def OpenGraph_canHandle_def Twitter_canHandle_def
      StandardMeta_canHandle_def OtherElements_canHandle_def js_defs toLowerCase_def
      lower_char_def)

theorem dispatch_first_success_witness:
  "canHandle OpenGraphProvider og_title_node
   \<and> scrape OpenGraphProvider og_title_node = None
   \<and> priority OpenGraphProvider < priority OtherElementsProvider
   \<and> Registry_scrapeFromElement (new_ProviderRegistry defaults) og_title_node
       = Some (OtherElementsProvider, ''title'', ''Hello'')
   \<and> Registry_scrapeFromElement (new_ProviderRegistry defaults) plain_div = None"
proof -
  have h: "OtherElementsProvider \<in> set defaults \<and> canHandle OtherElementsProvider og_title_node
      \<and> scrape OtherElementsProvider og_title_node = Some (''title'', ''Hello'')
      \<and> (\<forall>q \<in> set defaults. priority q \<le> priority OtherElementsProvider \<and> q \<noteq> OtherElementsProvider
           \<longrightarrow> \<not> canHandle q og_title_node \<or> scrape q og_title_node = None)"
    by (simp add: defaults_def og_title_node_facts)
  have n: "\<forall>q \<in> set defaults. \<not> canHandle q plain_div \<or> scrape q plain_div = None"
    by (simp add: defaults_def plain_div_facts)
  from dispatch_first_success [of defaults og_title_node OtherElementsProvider "(''title'', ''Hello'')"] h
  have a: "Registry_scrapeFromElement (new_ProviderRegistry defaults) og_title_node
       = Some (OtherElementsProvider, ''title'', ''Hello'')"
    by blast
  from dispatch_first_success [of defaults plain_div OtherElementsProvider "(''title'', ''Hello'')"] n
  have b: "Registry_scrapeFromElement (new_ProviderRegistry defaults) plain_div = None"
    by blast
  from a b show ?thesis
    using og_title_node_facts(1,2)
    by (simp add: OpenGraphProvider_sel(2) OtherElementsProvider_sel(2))
qed

subsection \<open>Field resolution takes the first non-empty answer\<close>

text \<open>
  C2, as the claim words it, fails on the code: with a first value \<^verbatim>\<open>""\<close> stored for
  \<^verbatim>\<open>title\<close> under OpenGraph (priority 1) and \<^verbatim>\<open>"T1"\<close> under Twitter (priority 2), the provider
  with the lowest priority number that has a value is OpenGraph, yet \<^verbatim>\<open>resolveValue\<close> returns
  \<^verbatim>\<open>"T1"\<close>; and when the only value stored for \<^verbatim>\<open>title\<close> is the \<^verbatim>\<open>""\<close> that OtherElements
  extracts from a blank \<^verbatim>\<open>title\<close> element, a provider has a value and \<^verbatim>\<open>resolveValue\<close> returns
  none.
\<close>

theorem resolveValue_counterexample:
  "Registry_resolveValue (new_ProviderRegistry defaults) ''title'' blank_og_title = Some ''T1''
   \<and> spec_resolveField (getProviders (new_ProviderRegistry defaults)) ''title'' blank_og_title = Some ''''
   \<and> Registry_resolveValue (new_ProviderRegistry defaults) ''title'' blank_other_title = None
   \<and> spec_resolveField (getProviders (new_ProviderRegistry defaults)) ''title'' blank_other_title = Some ''''"
  unfolding resolveValue_defaults getProviders_def providers_defaults
  by (simp add: defaults_def resolveValue_loop_Cons
      provider_sel provider_answer_def Provider_getValue_def blank_og_title_def
      blank_other_title_def truthy_def)

text \<open>
  C2, amended. For every registry (built by registering the providers \<open>ps\<close> in any order),
  every field name and every accumulated data, \<^verbatim>\<open>resolveValue\<close> returns the answer of the first
  provider, in ascending order of priority with ties in registration order, whose answer
  for the field is a non-empty string; a provider without an entry in the data answers
  nothing and is passed over, as is one whose answer is the empty string. The result is
  none if no provider has a non-empty answer.
\<close>

theorem resolveValue_first_nonempty:
  "Registry_resolveValue (new_ProviderRegistry ps) key pd =
     (case find (\<lambda>p. truthy (provider_answer p key pd)) (sort_key priority ps) of
        None \<Rightarrow> None
      | Some p \<Rightarrow> provider_answer p key pd)"
  by (simp only: Registry_resolveValue_def providers_new_ProviderRegistry resolveValue_loop_find)

theorem resolveValue_first_nonempty_witness:
  "Registry_resolveValue (new_ProviderRegistry defaults) ''title'' titles_data = Some ''T1''"
proof -
  have "sort_key priority defaults = defaults"
    by (simp add: defaults_def provider_sel)
  with resolveValue_first_nonempty [of defaults "''title''" titles_data]
  show ?thesis
    by (simp add: defaults_def provider_sel provider_answer_def Provider_getValue_def
        titles_data_def truthy_def)
qed

subsection \<open>Registration keeps a stable priority order\<close>

text \<open>
  C3. Whatever the sequence \<open>ps\<close> of registered providers, \<^verbatim>\<open>getProviders\<close> lists them in
  ascending priority, and the providers of any one priority \<open>k\<close> appear in the order of
  their registration; nothing is lost or duplicated. Registering one more provider \<open>p\<close>
  gives the registry of the sequence \<open>ps @ [p]\<close>, so the same holds after every
  registration.
\<close>

theorem registry_sorted_stable:
  "sorted (map priority (getProviders (new_ProviderRegistry ps)))
   \<and> filter (\<lambda>q. priority q = k) (getProviders (new_ProviderRegistry ps))
       = filter (\<lambda>q. priority q = k) ps
   \<and> mset (getProviders (new_ProviderRegistry ps)) = mset ps
   \<and> sorted (map priority (getProviders (registerProvider (new_ProviderRegistry ps) p)))
   \<and> filter (\<lambda>q. priority q = k) (getProviders (registerProvider (new_ProviderRegistry ps) p))
       = filter (\<lambda>q. priority q = k) (ps @ [p])"
proof -
  have a: "getProviders (new_ProviderRegistry xs) = sort_key priority xs" for xs
    by (simp add: getProviders_def providers_new_ProviderRegistry)
  have b: "registerProvider (new_ProviderRegistry ps) p = new_ProviderRegistry (ps @ [p])"
    by (simp add: new_ProviderRegistry_snoc)
  have c: "filter (\<lambda>q. priority q = k) (sort_key priority xs) = filter (\<lambda>q. priority q = k) xs" for xs
    by (rule sort_key_stable)
  have d: "sorted (map priority (sort_key priority xs))" for xs
    by (rule sorted_sort_key)
  have e: "mset (sort_key priority ps) = mset ps"
    by (rule mset_sort)
  show ?thesis
    unfolding b a using c [of ps] c [of "ps @ [p]"] d [of ps] d [of "ps @ [p]"] e by blast
qed

subsection \<open>Feed links\<close>

text \<open>
  C4, as the claim words it, fails on the code. In an HTML document, a \<^verbatim>\<open>link\<close> with
  \<^verbatim>\<open>rel="alternate"\<close> whose \<^verbatim>\<open>href\<close> is present and empty is not recorded; a \<^verbatim>\<open>title\<close> attribute
  that is present and empty is recorded as an absent title; and a \<^verbatim>\<open>link\<close> whose \<^verbatim>\<open>rel\<close> is
  \<^verbatim>\<open>ALTERNATE\<close>, which is not exactly \<^verbatim>\<open>alternate\<close>, is recorded, as the document selects it
  for \<^verbatim>\<open>link[rel='alternate']\<close>.
\<close>

theorem feed_links_counterexample:
  "getAttribute feed_link_blank_href ''rel'' = Some ''alternate''
   \<and> getAttribute feed_link_blank_href ''href'' = Some ''''
   \<and> map_sum id feeds
        (Scraper_scrape (new_ProviderRegistry defaults) (Some (html_document [feed_link_blank_href])))
       = Inr []
   \<and> getAttribute feed_link_blank_title ''title'' = Some ''''
   \<and> map_sum id feeds
        (Scraper_scrape (new_ProviderRegistry defaults) (Some (html_document [feed_link_blank_title])))
       = Inr [\<lparr>title = None, type = '''', href = ''/f.xml''\<rparr>]
   \<and> getAttribute feed_link_upper_rel ''rel'' = Some ''ALTERNATE''
   \<and> map_sum id feeds
        (Scraper_scrape (new_ProviderRegistry defaults) (Some (html_document [feed_link_upper_rel])))
       = Inr [\<lparr>title = None, type = '''', href = ''/f.xml''\<rparr>]"
  by (simp add: html_document_feeds html_matches_def feed_records_def feed_link_blank_href_def
      feed_link_blank_title_def feed_link_upper_rel_def getAttribute_def toLowerCase_def
      lower_char_def)

text \<open>
  C4, amended. Whatever the registry, the feed list of a scraped document holds, in
  document order, one record for every element the document selects for
  \<^verbatim>\<open>link[rel='alternate']\<close> whose \<^verbatim>\<open>href\<close> is present and non-empty, and nothing else: the
  record's title is the \<^verbatim>\<open>title\<close> attribute (absent if the attribute is absent or empty),
  its type the \<^verbatim>\<open>type\<close> attribute or the empty string, its href the \<^verbatim>\<open>href\<close> attribute. A
  selected element contributes at most one record, and none if its \<^verbatim>\<open>href\<close> is absent or
  empty; the providers have no part in it. Which elements the selector selects is the
  document's matter.
\<close>

theorem feed_links_recorded:
  "(querySelectorAll d = Some select \<and> querySelector d = Some first
      \<longrightarrow> map_sum id feeds (Scraper_scrape reg (Some d))
          = Inr (concat (map feed_records (select ''link[rel='alternate']''))))
   \<and> length (feed_records e) \<le> 1
   \<and> (feed_records e \<noteq> []) = (\<exists>h. getAttribute e ''href'' = Some h \<and> h \<noteq> [])
   \<and> (getAttribute e ''href'' = Some h \<and> h \<noteq> []
      \<longrightarrow> feed_records e =
          [\<lparr>title = (case getAttribute e ''title'' of
                       None \<Rightarrow> None
                     | Some t \<Rightarrow> if t = [] then None else Some t),
            type = (case getAttribute e ''type'' of None \<Rightarrow> [] | Some t \<Rightarrow> t),
            href = h\<rparr>])"
proof (intro conjI impI)
  assume "querySelectorAll d = Some select \<and> querySelector d = Some first"
  then show "map_sum id feeds (Scraper_scrape reg (Some d))
          = Inr (concat (map feed_records (select ''link[rel='alternate']'')))"
    by (intro Scraper_scrape_feeds) simp_all
next
  show "length (feed_records e) \<le> 1"
    by (simp add: feed_records_def split: option.splits)
next
  show "(feed_records e \<noteq> []) = (\<exists>h. getAttribute e ''href'' = Some h \<and> h \<noteq> [])"
    by (auto simp: feed_records_def split: option.splits)
next
  assume "getAttribute e ''href'' = Some h \<and> h \<noteq> []"
  then show "feed_records e =
          [\<lparr>title = (case getAttribute e ''title'' of
                       None \<Rightarrow> None
                     | Some t \<Rightarrow> if t = [] then None else Some t),
            type = (case getAttribute e ''type'' of None \<Rightarrow> [] | Some t \<Rightarrow> t),
            href = h\<rparr>]"
    by (simp add: feed_records_def)
qed

theorem feed_links_recorded_witness:
  "map_sum id feeds
     (Scraper_scrape (new_ProviderRegistry defaults) (Some (html_document sample_document)))
     = Inr [\<lparr>title = Some ''Feed'', type = ''application/rss+xml'', href = ''/f.xml''\<rparr>]
   \<and> feed_records feed_link = [\<lparr>title = Some ''Feed'', type = ''application/rss+xml'', href = ''/f.xml''\<rparr>]
   \<and> feed_records feed_link_no_href = []"
proof -
  let ?select = "\<lambda>sel. filter (html_matches sel) sample_document"
  let ?first = "\<lambda>sel. find (html_matches sel) sample_document"
  have sel: "?select ''link[rel='alternate']'' = [feed_link, feed_link_no_href]"
    by (simp add: sample_document_def html_matches_def meta_description_def blank_title_def
        feed_link_def feed_link_no_href_def getAttribute_def toLowerCase_def lower_char_def)
  have h: "querySelectorAll (html_document sample_document) = Some ?select
      \<and> querySelector (html_document sample_document) = Some ?first"
    by (simp add: html_document_sel)
  have href: "getAttribute feed_link ''href'' = Some ''/f.xml'' \<and> ''/f.xml'' \<noteq> []"
    by (simp add: feed_link_def getAttribute_def)
  note inst = feed_links_recorded [of "html_document sample_document" ?select ?first
      "new_ProviderRegistry defaults" feed_link "''/f.xml''"]
  note inst2 = feed_links_recorded [of "html_document sample_document" ?select ?first
      "new_ProviderRegistry defaults" feed_link_no_href "''/f.xml''"]
  from inst h have a: "map_sum id feeds
      (Scraper_scrape (new_ProviderRegistry defaults) (Some (html_document sample_document)))
      = Inr (concat (map feed_records (?select ''link[rel='alternate']'')))"
    by blast
  from inst href have b: "feed_records feed_link =
      [\<lparr>title = Some ''Feed'', type = ''application/rss+xml'', href = ''/f.xml''\<rparr>]"
    by (simp add: feed_link_def getAttribute_def)
  from inst2 have "(feed_records feed_link_no_href \<noteq> [])
      = (\<exists>h. getAttribute feed_link_no_href ''href'' = Some h \<and> h \<noteq> [])"
    by blast
  then have c: "feed_records feed_link_no_href = []"
    by (simp add: feed_link_no_href_def getAttribute_def)
  from a b c show ?thesis
    by (simp add: sel)
qed

subsection \<open>What StandardMeta recognizes\<close>

text \<open>
  C5, as the claim words it, fails on the code: \<^verbatim>\<open>canHandle\<close> never looks at the tag name, so
  a \<^verbatim>\<open>div\<close> with \<^verbatim>\<open>name\<close> and \<^verbatim>\<open>content\<close> is recognized; and a \<^verbatim>\<open>meta\<close> element whose only
  naming attribute is a \<^verbatim>\<open>name\<close> that is present and empty is not recognized.
\<close>

theorem StandardMeta_canHandle_counterexample:
  "toLowerCase (tagName div_with_name) \<noteq> ''meta''
   \<and> StandardMeta_canHandle div_with_name
   \<and> toLowerCase (tagName meta_blank_name) = ''meta''
   \<and> getAttribute meta_blank_name ''content'' = Some ''About''
   \<and> getAttribute meta_blank_name ''name'' = Some ''''
   \<and> \<not> StandardMeta_canHandle meta_blank_name"
  by (simp add: div_with_name_def meta_blank_name_def StandardMeta_canHandle_def js_defs
      toLowerCase_def lower_char_def)

text \<open>
  C5, amended. StandardMeta recognizes exactly the elements, of whatever tag, that have a
  non-empty \<^verbatim>\<open>content\<close> attribute and a non-empty \<^verbatim>\<open>name\<close> or \<^verbatim>\<open>property\<close> attribute, where
  neither \<^verbatim>\<open>name\<close> nor \<^verbatim>\<open>property\<close> starts with \<^verbatim>\<open>og:\<close> or \<^verbatim>\<open>twitter:\<close>.
\<close>

theorem StandardMeta_canHandle_iff:
  "StandardMeta_canHandle e \<longleftrightarrow>
     (\<exists>c. getAttribute e ''content'' = Some c \<and> c \<noteq> [])
     \<and> ((\<exists>n. getAttribute e ''name'' = Some n \<and> n \<noteq> [])
          \<or> (\<exists>p. getAttribute e ''property'' = Some p \<and> p \<noteq> []))
     \<and> (\<forall>n. getAttribute e ''name'' = Some n
            \<longrightarrow> \<not> startsWith n ''og:'' \<and> \<not> startsWith n ''twitter:'')
     \<and> (\<forall>p. getAttribute e ''property'' = Some p
            \<longrightarrow> \<not> startsWith p ''og:'' \<and> \<not> startsWith p ''twitter:'')"
  by (cases "getAttribute e ''content''"; cases "getAttribute e ''name''";
      cases "getAttribute e ''property''")
    (auto simp: StandardMeta_canHandle_def Let_def opt_startsWith_def truthy_b_def js_or_def
      truthy_def)

theorem StandardMeta_canHandle_iff_witness:
  "StandardMeta_canHandle meta_description \<and> StandardMeta_canHandle div_with_name
   \<and> \<not> StandardMeta_canHandle meta_blank_name \<and> \<not> StandardMeta_canHandle og_named_meta"
  using StandardMeta_canHandle_iff [of meta_description] StandardMeta_canHandle_iff [of div_with_name]
    StandardMeta_canHandle_iff [of meta_blank_name] StandardMeta_canHandle_iff [of og_named_meta]
  by (simp add: meta_description_def div_with_name_def meta_blank_name_def og_named_meta_def
      getAttribute_def startsWith_def)

subsection \<open>Blank and missing text\<close>

text \<open>
  C6. OtherElements extracts the empty string, not a miss, from a \<^verbatim>\<open>title\<close> (key \<^verbatim>\<open>title\<close>) or
  \<^verbatim>\<open>h1\<close> (key \<^verbatim>\<open>firstHeading\<close>) element whose text is non-empty and all white space; from a
  \<^verbatim>\<open>title\<close> or \<^verbatim>\<open>h1\<close> element whose text is absent or empty it extracts nothing.
\<close>

theorem OtherElements_blank_text:
  "(toLowerCase (tagName e) = ''title'' \<and> textContent e = Some s \<and> s \<noteq> []
      \<and> (\<forall>c \<in> set s. isWhiteSpace c)
    \<longrightarrow> OtherElements_scrape e = Some (''title'', ''''))
   \<and> (toLowerCase (tagName e) = ''h1'' \<and> textContent e = Some s \<and> s \<noteq> []
      \<and> (\<forall>c \<in> set s. isWhiteSpace c)
    \<longrightarrow> OtherElements_scrape e = Some (''firstHeading'', ''''))
   \<and> ((toLowerCase (tagName e) = ''title'' \<or> toLowerCase (tagName e) = ''h1'')
      \<and> (textContent e = None \<or> textContent e = Some '''')
    \<longrightarrow> OtherElements_scrape e = None)"
  by (auto simp: OtherElements_scrape_def Let_def truthy_def trim_whitespace_only)

theorem OtherElements_blank_text_witness:
  "OtherElements_scrape blank_title = Some (''title'', '''')
   \<and> OtherElements_scrape blank_h1 = Some (''firstHeading'', '''')
   \<and> OtherElements_scrape empty_title = None"
proof -
  have t: "toLowerCase (tagName blank_title) = ''title'' \<and> textContent blank_title = Some ''   ''
      \<and> ''   '' \<noteq> [] \<and> (\<forall>c \<in> set ''   ''. isWhiteSpace c)"
    by (simp add: blank_title_def toLowerCase_def lower_char_def isWhiteSpace_def)
  have h: "toLowerCase (tagName blank_h1) = ''h1'' \<and> textContent blank_h1 = Some [CHR 0x20, CHR 0x0A]
      \<and> [CHR 0x20, CHR 0x0A] \<noteq> [] \<and> (\<forall>c \<in> set [CHR 0x20, CHR 0x0A]. isWhiteSpace c)"
    by (simp add: blank_h1_def toLowerCase_def lower_char_def isWhiteSpace_def)
  have n: "(toLowerCase (tagName empty_title) = ''title'' \<or> toLowerCase (tagName empty_title) = ''h1'')
      \<and> (textContent empty_title = None \<or> textContent empty_title = Some '''')"
    by (simp add: empty_title_def toLowerCase_def lower_char_def)
  from OtherElements_blank_text [of blank_title "''   ''"] t
  have "OtherElements_scrape blank_title = Some (''title'', '''')" by blast
  moreover from OtherElements_blank_text [of blank_h1 "[CHR 0x20, CHR 0x0A]"] h
  have "OtherElements_scrape blank_h1 = Some (''firstHeading'', '''')" by blast
  moreover from OtherElements_blank_text [of empty_title "[]"] n
  have "OtherElements_scrape empty_title = None" by blast
  ultimately show ?thesis by blast
qed

subsection \<open>What the driver throws\<close>

text \<open>
  C7, as the claim words it, fails on the code. An object that has a \<^verbatim>\<open>querySelectorAll\<close>
  function and no \<^verbatim>\<open>querySelector\<close> can select elements and passes the guard; the meta phase
  runs on it and accumulates a value; then the title phase throws a \<^verbatim>\<open>TypeError\<close>. Either
  this input is queryable and \<^verbatim>\<open>scrape\<close> throws on it, or it is not and the error does not
  come before the phases.
\<close>

theorem scrape_counterexample:
  "querySelectorAll select_all_only \<noteq> None
   \<and> scrapeMetaTags (new_ProviderRegistry defaults) select_all_only
        (new_Metadata (Some (new_ProviderRegistry defaults)))
       = Inr (addData (new_Metadata (Some (new_ProviderRegistry defaults)))
               ''meta'' ''description'' ''About'')
   \<and> Scraper_scrape (new_ProviderRegistry defaults) (Some select_all_only)
       = Inl (TypeError ''this.document.querySelector is not a function'')"
proof -
  have d: "Registry_scrapeFromElement (new_ProviderRegistry defaults) meta_description
      = Some (StandardMetaProvider, ''description'', ''About'')"
    unfolding Registry_scrapeFromElement_def providers_defaults
    by (simp add: defaults_def provider_sel meta_description_def OpenGraph_canHandle_def
        Twitter_canHandle_def StandardMeta_canHandle_def StandardMeta_scrape_def js_defs)
  show ?thesis
    by (simp add: select_all_only_def Scraper_scrape_def scrapeMetaTags_def scrapeTitleTag_def
        and_then_def Scraper_scrapeFromElement_def d provider_sel)
qed

text \<open>
  C7, amended. \<^verbatim>\<open>Scraper.scrape\<close> throws the type error \<^verbatim>\<open>DOM Document expected.\<close>, the
  guard's, when its input is falsy or has no \<^verbatim>\<open>querySelectorAll\<close> function. On an input that
  has \<^verbatim>\<open>querySelectorAll\<close> and no \<^verbatim>\<open>querySelector\<close> it throws the type error of the title
  phase. On every input that has both functions (the first returning a list of elements,
  the second an element or \<^verbatim>\<open>null\<close>), a DOM document among them, and with providers whose
  methods return normally, it does not throw: it returns the accumulator
  obtained by dispatching, in this order, the \<^verbatim>\<open>meta\<close> elements, the first \<^verbatim>\<open>title\<close>, the first
  \<^verbatim>\<open>h1\<close> and the \<^verbatim>\<open>link[rel]\<close> elements, and then recording the feed links. A node no
  provider extracts from leaves the accumulator as it is, a feed link without \<^verbatim>\<open>href\<close>
  leaves it as it is, and embedded JSON that does not parse (or parses to \<^verbatim>\<open>null\<close>) makes
  the JSON-LD extraction return none.
\<close>

theorem scrape_outcomes:
  "Scraper_scrape reg None = Inl (TypeError ''DOM Document expected.'')
   \<and> (querySelectorAll d = None
      \<longrightarrow> Scraper_scrape reg (Some d) = Inl (TypeError ''DOM Document expected.''))
   \<and> (querySelectorAll d = Some select \<and> querySelector d = None
      \<longrightarrow> Scraper_scrape reg (Some d)
          = Inl (TypeError ''this.document.querySelector is not a function''))
   \<and> (querySelectorAll d = Some select \<and> querySelector d = Some first
      \<longrightarrow> Scraper_scrape reg (Some d)
          = Inr (foldl pushFeed
                  (foldl (Scraper_scrapeFromElement reg) (new_Metadata (Some reg))
                     (dispatched_nodes select first))
                  (select ''link[rel='alternate']'')))
   \<and> (Registry_scrapeFromElement reg e = None \<longrightarrow> Scraper_scrapeFromElement reg acc e = acc)
   \<and> (getAttribute e ''href'' = None \<longrightarrow> pushFeed acc e = acc)
   \<and> (textContent e = Some s \<and> parse s = Inl err \<longrightarrow> JsonLd_scrape parse e = None)
   \<and> (textContent e = Some s \<and> parse s = Inr JNull \<longrightarrow> JsonLd_scrape parse e = None)"
proof (intro conjI impI)
  show "Scraper_scrape reg None = Inl (TypeError ''DOM Document expected.'')"
    by (simp add: Scraper_scrape_def)
next
  assume "querySelectorAll d = None"
  then show "Scraper_scrape reg (Some d) = Inl (TypeError ''DOM Document expected.'')"
    by (simp add: Scraper_scrape_def)
next
  assume "querySelectorAll d = Some select \<and> querySelector d = None"
  then show "Scraper_scrape reg (Some d)
      = Inl (TypeError ''this.document.querySelector is not a function'')"
    by (simp add: Scraper_scrape_def scrapeMetaTags_def scrapeTitleTag_def and_then_def)
next
  assume "querySelectorAll d = Some select \<and> querySelector d = Some first"
  then show "Scraper_scrape reg (Some d)
      = Inr (foldl pushFeed
              (foldl (Scraper_scrapeFromElement reg) (new_Metadata (Some reg))
                 (dispatched_nodes select first))
              (select ''link[rel='alternate']''))"
    by (intro Scraper_scrape_run) simp_all
next
  assume "Registry_scrapeFromElement reg e = None"
  then show "Scraper_scrapeFromElement reg acc e = acc"
    by (simp add: Scraper_scrapeFromElement_def)
next
  assume "getAttribute e ''href'' = None"
  then show "pushFeed acc e = acc"
    by (simp add: pushFeed_def truthy_def)
next
  assume "textContent e = Some s \<and> parse s = Inl err"
  then show "JsonLd_scrape parse e = None"
    by (simp add: JsonLd_scrape_def JsonLd_scrape_try_def)
next
  assume "textContent e = Some s \<and> parse s = Inr JNull"
  then show "JsonLd_scrape parse e = None"
    by (simp add: JsonLd_scrape_def JsonLd_scrape_try_def)
qed

theorem scrape_outcomes_witness:
  "Scraper_scrape (new_ProviderRegistry defaults) (Some empty_object)
     = Inl (TypeError ''DOM Document expected.'')
   \<and> Scraper_scrape (new_ProviderRegistry defaults) (Some select_all_only)
     = Inl (TypeError ''this.document.querySelector is not a function'')
   \<and> Scraper_scrape (new_ProviderRegistry defaults) (Some (html_document sample_document))
     = Inr (foldl pushFeed
             (addAll (new_Metadata (Some (new_ProviderRegistry defaults)))
                [(''meta'', ''description'', ''About''), (''other'', ''title'', '''')])
             [feed_link, feed_link_no_href])
   \<and> Scraper_scrapeFromElement (new_ProviderRegistry defaults) blank_icon_metadata plain_div
       = blank_icon_metadata
   \<and> pushFeed blank_icon_metadata feed_link_no_href = blank_icon_metadata
   \<and> JsonLd_scrape failing_parse ld_script = None
   \<and> JsonLd_scrape null_parse ld_script = None"
proof -
  let ?reg = "new_ProviderRegistry defaults"
  let ?select = "\<lambda>sel. filter (html_matches sel) sample_document"
  let ?first = "\<lambda>sel. find (html_matches sel) sample_document"
  let ?only = "\<lambda>sel. if sel = ''meta'' then [meta_description] else []"
  have g: "querySelectorAll empty_object = None"
    by (simp add: empty_object_def)
  have q: "querySelectorAll select_all_only = Some ?only \<and> querySelector select_all_only = None"
    by (simp add: select_all_only_def)
  have h: "querySelectorAll (html_document sample_document) = Some ?select
      \<and> querySelector (html_document sample_document) = Some ?first"
    by (simp add: html_document_sel)
  have miss: "Registry_scrapeFromElement ?reg plain_div = None"
    by (rule sample_document_dispatch)
  have href: "getAttribute feed_link_no_href ''href'' = None"
    by (simp add: feed_link_no_href_def getAttribute_def)
  have bad: "textContent ld_script = Some ''{oops'' \<and> failing_parse ''{oops'' = Inl SyntaxError"
    by (simp add: ld_script_def failing_parse_def)
  have null: "textContent ld_script = Some ''{oops'' \<and> null_parse ''{oops'' = Inr JNull"
    by (simp add: ld_script_def null_parse_def)
  note a = scrape_outcomes [of ?reg empty_object ?select ?first plain_div
      blank_icon_metadata "''{oops''" failing_parse SyntaxError]
  note b = scrape_outcomes [of ?reg select_all_only ?only ?first feed_link_no_href
      blank_icon_metadata "''{oops''" null_parse SyntaxError]
  note c = scrape_outcomes [of ?reg "html_document sample_document" ?select ?first ld_script
      blank_icon_metadata "''{oops''" failing_parse SyntaxError]
  note d = scrape_outcomes [of ?reg "html_document sample_document" ?select ?first ld_script
      blank_icon_metadata "''{oops''" null_parse SyntaxError]
  from a g have r1: "Scraper_scrape ?reg (Some empty_object) = Inl (TypeError ''DOM Document expected.'')"
    by blast
  from b q have r2: "Scraper_scrape ?reg (Some select_all_only)
      = Inl (TypeError ''this.document.querySelector is not a function'')"
    by blast
  from c h have "Scraper_scrape ?reg (Some (html_document sample_document))
      = Inr (foldl pushFeed
              (foldl (Scraper_scrapeFromElement ?reg) (new_Metadata (Some ?reg))
                 (dispatched_nodes ?select ?first))
              (?select ''link[rel='alternate']''))"
    by blast
  then have r3: "Scraper_scrape ?reg (Some (html_document sample_document))
     = Inr (foldl pushFeed
             (addAll (new_Metadata (Some ?reg))
                [(''meta'', ''description'', ''About''), (''other'', ''title'', '''')])
             [feed_link, feed_link_no_href])"
    by (simp add: sample_document_nodes Scraper_scrapeFromElement_def sample_document_dispatch
        provider_sel addAll_def)
  from a miss have r4: "Scraper_scrapeFromElement ?reg blank_icon_metadata plain_div = blank_icon_metadata"
    by blast
  from b href have r5: "pushFeed blank_icon_metadata feed_link_no_href = blank_icon_metadata"
    by blast
  from c bad have r6: "JsonLd_scrape failing_parse ld_script = None"
    by blast
  from d null have r7: "JsonLd_scrape null_parse ld_script = None"
    by blast
  from r1 r2 r3 r4 r5 r6 r7 show ?thesis by blast
qed

subsection \<open>The favicon getter\<close>

text \<open>
  C8. For every \<^verbatim>\<open>Metadata\<close> instance \<open>m\<close>, \<^verbatim>\<open>favicon\<close> is the resolved value of \<^verbatim>\<open>icon\<close> if
  there is one, else the resolved value of \<^verbatim>\<open>shortcut icon\<close> if there is one, else
  \<^verbatim>\<open>/favicon.ico\<close>. In particular it is \<^verbatim>\<open>/favicon.ico\<close> for a \<^verbatim>\<open>Metadata\<close> created on a registry
  whose providers resolve as the built-in ones do and filled by \<^verbatim>\<open>addData\<close> calls none of which
  supplies \<^verbatim>\<open>icon\<close> or \<^verbatim>\<open>shortcut icon\<close>.
\<close>

theorem favicon_fallback_chain:
  "favicon m =
     (case Metadata_resolveValue m ''icon'' of
        Some v \<Rightarrow> v
      | None \<Rightarrow> (case Metadata_resolveValue m ''shortcut icon'' of
                  Some v \<Rightarrow> v
                | None \<Rightarrow> ''/favicon.ico''))
   \<and> ((\<forall>p \<in> set (getProviders reg). getValue p = Provider_getValue)
        \<and> (\<forall>(pn, k, v) \<in> set calls. k \<noteq> ''icon'' \<and> k \<noteq> ''shortcut icon'')
      \<longrightarrow> favicon (addAll (new_Metadata (Some reg)) calls) = ''/favicon.ico'')"
proof (intro conjI impI)
  show "favicon m =
     (case Metadata_resolveValue m ''icon'' of
        Some v \<Rightarrow> v
      | None \<Rightarrow> (case Metadata_resolveValue m ''shortcut icon'' of
                  Some v \<Rightarrow> v
                | None \<Rightarrow> ''/favicon.ico''))"
    by (rule favicon_chain)
next
  assume h: "(\<forall>p \<in> set (getProviders reg). getValue p = Provider_getValue)
        \<and> (\<forall>(pn, k, v) \<in> set calls. k \<noteq> ''icon'' \<and> k \<noteq> ''shortcut icon'')"
  let ?m = "addAll (new_Metadata (Some reg)) calls"
  have init: "\<forall>n data. providerData (new_Metadata (Some reg)) n = Some data \<longrightarrow> data key = None" for key
    using new_Metadata_data by fastforce
  have none: "\<forall>n data. providerData ?m n = Some data \<longrightarrow> data key = None"
    if "key = ''icon'' \<or> key = ''shortcut icon''" for key
    using init
  proof (rule addAll_other_keys)
    show "\<forall>(pn, k, v) \<in> set calls. k \<noteq> key"
      using h that by auto
  qed
  have "shows_nothing data key"
    if "providerData ?m n = Some data" and "key = ''icon'' \<or> key = ''shortcut icon''"
    for n data key
  proof -
    from none [OF that(2)] that(1) have "data key = None" by blast
    then show ?thesis by (simp add: shows_nothing_def)
  qed
  then have "\<forall>n data. providerData ?m n = Some data \<longrightarrow>
        shows_nothing data ''icon'' \<and> shows_nothing data ''shortcut icon''"
    by blast
  moreover from h have "\<forall>p \<in> set (providers (registry ?m)). getValue p = Provider_getValue"
    by (simp add: getProviders_def)
  ultimately show "favicon ?m = ''/favicon.ico''"
    by (intro favicon_default)
qed

theorem favicon_fallback_chain_witness:
  "map getValue (getProviders (new_ProviderRegistry defaults)) = replicate 4 Provider_getValue
   \<and> map (\<lambda>(pn, k, v). k) no_icon_calls = [''title'', ''image'']
   \<and> favicon (addAll (new_Metadata (Some (new_ProviderRegistry defaults))) no_icon_calls)
       = ''/favicon.ico''"
proof -
  have h: "(\<forall>p \<in> set (getProviders (new_ProviderRegistry defaults)). getValue p = Provider_getValue)
      \<and> (\<forall>(pn, k, v) \<in> set no_icon_calls. k \<noteq> ''icon'' \<and> k \<noteq> ''shortcut icon'')"
    using defaults_getValue by (simp add: no_icon_calls_def)
  have g: "map getValue (getProviders (new_ProviderRegistry defaults)) = replicate 4 Provider_getValue"
    by (simp add: getProviders_def providers_defaults)
      (simp add: defaults_def provider_sel numeral_eq_Suc)
  have k: "map (\<lambda>(pn, k, v). k) no_icon_calls = [''title'', ''image'']"
    by (simp add: no_icon_calls_def)
  from favicon_fallback_chain [of blank_icon_metadata "new_ProviderRegistry defaults" no_icon_calls] h
  have "favicon (addAll (new_Metadata (Some (new_ProviderRegistry defaults))) no_icon_calls)
       = ''/favicon.ico''"
    by blast
  with g k show ?thesis by blast
qed

subsection \<open>Empty strings are invisible to resolution\<close>

text \<open>
  C9. If the first value accumulated under a provider \<open>p\<close> for a field is the empty string
  (and \<open>p\<close> resolves as the built-in providers do), \<^verbatim>\<open>resolveValue\<close> skips \<open>p\<close>: the result is
  what the providers before \<open>p\<close> resolve, else what the providers after \<open>p\<close> resolve.
  \<^verbatim>\<open>resolveValue\<close> never returns the empty string. \<^verbatim>\<open>favicon\<close> is \<^verbatim>\<open>/favicon.ico\<close> whenever every
  list stored for \<^verbatim>\<open>icon\<close> and \<^verbatim>\<open>shortcut icon\<close> is missing, empty or starts with the empty
  string; in particular when the highest-priority provider \<open>p1\<close> of the registry accumulated
  an empty \<^verbatim>\<open>icon\<close> value in a fresh \<^verbatim>\<open>Metadata\<close>.
\<close>

theorem empty_string_invisible:
  "(providers reg = pre @ p # post \<and> pd (name p) = Some data \<and> data key = Some ('''' # vs)
      \<and> getValue p = Provider_getValue
    \<longrightarrow> Registry_resolveValue reg key pd =
        (case Registry_resolveValue (reg\<lparr>providers := pre\<rparr>) key pd of
           Some v \<Rightarrow> Some v
         | None \<Rightarrow> Registry_resolveValue (reg\<lparr>providers := post\<rparr>) key pd))
   \<and> Registry_resolveValue reg key pd \<noteq> Some ''''
   \<and> ((\<forall>q \<in> set (providers (registry m)). getValue q = Provider_getValue)
        \<and> (\<forall>n d. providerData m n = Some d \<longrightarrow>
              shows_nothing d ''icon'' \<and> shows_nothing d ''shortcut icon'')
      \<longrightarrow> favicon m = ''/favicon.ico'')
   \<and> ((\<forall>q \<in> set (getProviders r). getValue q = Provider_getValue)
        \<and> getProviders r = p1 # rest
      \<longrightarrow> favicon (addData (new_Metadata (Some r)) (name p1) ''icon'' '''') = ''/favicon.ico'')"
proof (intro conjI impI)
  assume h: "providers reg = pre @ p # post \<and> pd (name p) = Some data \<and> data key = Some ('''' # vs)
      \<and> getValue p = Provider_getValue"
  then have "provider_answer p key pd = Some ''''"
    by (simp add: provider_answer_def Provider_getValue_def)
  then have "resolveValue_loop (p # post) key pd = resolveValue_loop post key pd"
    by (simp add: resolveValue_loop_Cons truthy_def)
  with h show "Registry_resolveValue reg key pd =
        (case Registry_resolveValue (reg\<lparr>providers := pre\<rparr>) key pd of
           Some v \<Rightarrow> Some v
         | None \<Rightarrow> Registry_resolveValue (reg\<lparr>providers := post\<rparr>) key pd)"
    by (simp add: Registry_resolveValue_def resolveValue_loop_append cong: option.case_cong)
next
  show "Registry_resolveValue reg key pd \<noteq> Some ''''"
    using resolveValue_loop_truthy [of "providers reg" key pd "''''"]
    by (auto simp: Registry_resolveValue_def)
next
  assume "(\<forall>q \<in> set (providers (registry m)). getValue q = Provider_getValue)
        \<and> (\<forall>n d. providerData m n = Some d \<longrightarrow>
              shows_nothing d ''icon'' \<and> shows_nothing d ''shortcut icon'')"
  then show "favicon m = ''/favicon.ico''"
    by (intro favicon_default) blast+
next
  assume h: "(\<forall>q \<in> set (getProviders r). getValue q = Provider_getValue)
        \<and> getProviders r = p1 # rest"
  let ?fresh = "new_Metadata (Some r)"
  let ?acc = "addData ?fresh (name p1) ''icon'' ''''"
  have seed: "d = Map.empty" if "providerData ?fresh n = Some d" for n d
    using that by (rule new_Metadata_data)
  have data0: "(case providerData ?fresh (name p1) of None \<Rightarrow> Map.empty | Some d \<Rightarrow> d) = Map.empty"
    using seed by (cases "providerData ?fresh (name p1)") simp_all
  have pd: "providerData ?acc = (providerData ?fresh)(name p1 \<mapsto> [''icon'' \<mapsto> ['''']])"
    by (simp add: addData_def Let_def data0)
  have "shows_nothing d ''icon'' \<and> shows_nothing d ''shortcut icon''"
    if "providerData ?acc n = Some d" for n d
  proof (cases "n = name p1")
    case True
    with that pd have "d = [''icon'' \<mapsto> ['''']]" by simp
    then show ?thesis by (simp add: shows_nothing_def)
  next
    case False
    with that pd have "providerData ?fresh n = Some d" by simp
    then have "d = Map.empty" by (rule seed)
    then show ?thesis by (simp add: shows_nothing_def)
  qed
  then have "\<forall>n d. providerData ?acc n = Some d \<longrightarrow>
        shows_nothing d ''icon'' \<and> shows_nothing d ''shortcut icon''"
    by blast
  moreover from h have "\<forall>q \<in> set (providers (registry ?acc)). getValue q = Provider_getValue"
    by (simp add: getProviders_def)
  ultimately show "favicon ?acc = ''/favicon.ico''"
    by (intro favicon_default)
qed

theorem empty_string_invisible_witness:
  "blank_og_title (name OpenGraphProvider) = Some [''title'' \<mapsto> ['''']]
   \<and> Registry_resolveValue (new_ProviderRegistry defaults) ''title'' blank_og_title = Some ''T1''
   \<and> hd (getProviders (new_ProviderRegistry defaults)) = OpenGraphProvider
   \<and> favicon blank_icon_metadata = ''/favicon.ico''"
proof -
  let ?reg = "new_ProviderRegistry defaults"
  let ?post = "[TwitterProvider, StandardMetaProvider, OtherElementsProvider]"
  note inst = empty_string_invisible [of ?reg "[]" OpenGraphProvider ?post blank_og_title
      "[''title'' \<mapsto> ['''']]" "''title''" "[]" blank_icon_metadata ?reg OpenGraphProvider ?post]
  have h1: "providers ?reg = [] @ OpenGraphProvider # ?post
      \<and> blank_og_title (name OpenGraphProvider) = Some [''title'' \<mapsto> ['''']]
      \<and> [''title'' \<mapsto> ['''']] ''title'' = Some ('''' # [])
      \<and> getValue OpenGraphProvider = Provider_getValue"
    by (simp add: providers_defaults) (simp add: defaults_def provider_sel blank_og_title_def)
  have h2: "(\<forall>q \<in> set (getProviders ?reg). getValue q = Provider_getValue)
      \<and> getProviders ?reg = OpenGraphProvider # ?post"
    using defaults_getValue by (simp add: getProviders_def providers_defaults) (simp add: defaults_def)
  from inst h1 have "Registry_resolveValue ?reg ''title'' blank_og_title =
        (case Registry_resolveValue (?reg\<lparr>providers := []\<rparr>) ''title'' blank_og_title of
           Some v \<Rightarrow> Some v
         | None \<Rightarrow> Registry_resolveValue (?reg\<lparr>providers := ?post\<rparr>) ''title'' blank_og_title)"
    by blast
  then have r1: "Registry_resolveValue ?reg ''title'' blank_og_title = Some ''T1''"
    by (simp add: Registry_resolveValue_def resolveValue_loop_Cons provider_answer_def
        provider_sel Provider_getValue_def blank_og_title_def truthy_def)
  from inst h2 have r2: "favicon blank_icon_metadata = ''/favicon.ico''"
    unfolding blank_icon_metadata_def OpenGraphProvider_sel(1) [symmetric] by blast
  from h1 h2 r1 r2 show ?thesis by simp
qed

subsection \<open>The prefix is stripped from the property attribute\<close>

text \<open>
  C10. For a node with a non-empty \<^verbatim>\<open>property\<close> that does not start with the provider's
  prefix, a \<^verbatim>\<open>name\<close> that does, and a non-empty \<^verbatim>\<open>content\<close>, the Twitter provider extracts
  as key the \<^verbatim>\<open>property\<close> value without its first 8 characters, and the OpenGraph provider
  the \<^verbatim>\<open>property\<close> value without its first 3 characters; the \<^verbatim>\<open>name\<close> that caused the
  recognition is not what is stripped.
\<close>

theorem prefix_stripped_from_property:
  "(getAttribute e ''property'' = Some p \<and> p \<noteq> [] \<and> \<not> startsWith p ''twitter:''
      \<and> getAttribute e ''name'' = Some n \<and> startsWith n ''twitter:''
      \<and> getAttribute e ''content'' = Some c \<and> c \<noteq> []
    \<longrightarrow> Twitter_scrape e = Some (drop 8 p, c))
   \<and> (getAttribute e ''property'' = Some p \<and> p \<noteq> [] \<and> \<not> startsWith p ''og:''
      \<and> getAttribute e ''name'' = Some n \<and> startsWith n ''og:''
      \<and> getAttribute e ''content'' = Some c \<and> c \<noteq> []
    \<longrightarrow> OpenGraph_scrape e = Some (drop 3 p, c))"
  by (simp add: Twitter_scrape_def Twitter_canHandle_def OpenGraph_scrape_def
      OpenGraph_canHandle_def Let_def opt_startsWith_def js_or_b_def truthy_b_def nullish_def
      js_or_def truthy_def slice_def)

theorem prefix_stripped_from_property_witness:
  "Twitter_scrape twitter_named_meta = Some (''author'', ''@a'')
   \<and> OpenGraph_scrape og_named_meta = Some (''icle:tag'', ''Hello'')"
proof -
  have t: "getAttribute twitter_named_meta ''property'' = Some ''article:author''
      \<and> ''article:author'' \<noteq> [] \<and> \<not> startsWith ''article:author'' ''twitter:''
      \<and> getAttribute twitter_named_meta ''name'' = Some ''twitter:creator''
      \<and> startsWith ''twitter:creator'' ''twitter:''
      \<and> getAttribute twitter_named_meta ''content'' = Some ''@a'' \<and> ''@a'' \<noteq> []"
    by (simp add: twitter_named_meta_def getAttribute_def startsWith_def)
  have g: "getAttribute og_named_meta ''property'' = Some ''article:tag''
      \<and> ''article:tag'' \<noteq> [] \<and> \<not> startsWith ''article:tag'' ''og:''
      \<and> getAttribute og_named_meta ''name'' = Some ''og:title''
      \<and> startsWith ''og:title'' ''og:''
      \<and> getAttribute og_named_meta ''content'' = Some ''Hello'' \<and> ''Hello'' \<noteq> []"
    by (simp add: og_named_meta_def getAttribute_def startsWith_def)
  from prefix_stripped_from_property
    [of twitter_named_meta "''article:author''" "''twitter:creator''" "''@a''"] t
  have "Twitter_scrape twitter_named_meta = Some (drop 8 ''article:author'', ''@a'')" by blast
  moreover from prefix_stripped_from_property
    [of og_named_meta "''article:tag''" "''og:title''" "''Hello''"] g
  have "OpenGraph_scrape og_named_meta = Some (drop 3 ''article:tag'', ''Hello'')" by blast
  ultimately show ?thesis by simp
qed

end
